theory Spec2Isabelle
  imports Complex_Main "HOL-Library.AList"
begin

section \<open>Numbers and vectors\<close>

text \<open>
  A JavaScript number is a double. A finite double is a real number, and an arithmetic
  operation on doubles returns its exact result rounded: \<open>fl\<close> is the rounding. With
  \<open>exact\<close> nothing is rounded; with \<open>doubles\<close> the rounding is to the nearest number of 53
  significant bits, ties to the even one, as IEEE 754 has it for the binary64 format.
  \<open>Math.acos\<close> is not-a-number outside \<open>[-1, 1]\<close>, for which \<open>None\<close> stands; a comparison
  with it is false. Infinite results are not represented: \<open>fl53\<close> follows the format up to
  its largest exponent and through its subnormal numbers.
\<close>

record Arith =
  fl :: "real \<Rightarrow> real"
  Math_acos :: "real \<Rightarrow> real option"
  Math_PI :: real

fun halvings :: "nat \<Rightarrow> real \<Rightarrow> nat" where
  "halvings 0 x = 0"
| "halvings (Suc n) x = (if x < 2 then 0 else Suc (halvings n (x / 2)))"

fun doublings :: "nat \<Rightarrow> real \<Rightarrow> nat" where
  "doublings 0 x = 0"
| "doublings (Suc n) x = (if 1 \<le> x then 0 else Suc (doublings n (x * 2)))"

text \<open>
  The binary exponent of a number: \<open>2 ^ e \<le> \<bar>x\<bar> < 2 ^ (e + 1)\<close>, kept between the
  least and the largest exponent of a normal double.
\<close>

definition exponent :: "real \<Rightarrow> int" where
  "exponent x =
     (if 1 \<le> \<bar>x\<bar> then int (halvings 1023 \<bar>x\<bar>) else - int (doublings 1022 \<bar>x\<bar>))"

definition pow2 :: "int \<Rightarrow> real" where
  "pow2 e = (if 0 \<le> e then 2 ^ nat e else 1 / 2 ^ nat (- e))"

definition roundHalfEven :: "real \<Rightarrow> int" where
  "roundHalfEven y =
     (let f = \<lfloor>y\<rfloor>; r = y - of_int f
      in if r < 1 / 2 then f else if 1 / 2 < r then f + 1 else if even f then f else f + 1)"

definition fl53 :: "real \<Rightarrow> real" where
  "fl53 x = (if x = 0 then 0
             else (let q = pow2 (exponent x - 52) in of_int (roundHalfEven (x / q)) * q))"

definition exact :: Arith where
  "exact = \<lparr> fl = (\<lambda>x. x),
             Math_acos = (\<lambda>v. if - 1 \<le> v \<and> v \<le> 1 then Some (arccos v) else None),
             Math_PI = pi \<rparr>"

text \<open>
  \<open>Math.PI\<close> is the double \<open>3.141592653589793\<close>, written out here. \<open>Math.acos\<close> in
  doubles is taken as the arc cosine rounded; the language leaves its last bit to the
  implementation and fixes \<open>Math.acos(1)\<close> as zero, which is all that is run below.
\<close>

definition doubles :: Arith where
  "doubles = \<lparr> fl = fl53,
               Math_acos = (\<lambda>v. if - 1 \<le> v \<and> v \<le> 1 then Some (fl53 (arccos v)) else None),
               Math_PI = 884279719003555 / 2 ^ 48 \<rparr>"

definition gt_nan :: "real option \<Rightarrow> real \<Rightarrow> bool" where
  "gt_nan a b = (case a of None \<Rightarrow> False | Some v \<Rightarrow> v > b)"

datatype Vector3 = Vector3 (vx: real) (vy: real) (vz: real)

text \<open>
  Modelled from the spec: the class \<open>Vector3\<close> of \<open>Maths/math.vector\<close> is not among
  the source files. The spec names the geometry built on it (ray/plane intersection, axis
  projection); its operations are taken componentwise, with the names the callers use, each
  product, sum, difference, quotient and square root rounded on its own, sums from left to
  right. \<open>subtract a b\<close> is \<open>a.subtractToRef(b, _)\<close>, \<open>add a b\<close> is \<open>a.add(b)\<close> and
  \<open>a.addInPlace(b)\<close>, \<open>scale a s\<close> is \<open>a.scaleToRef(s, _)\<close> and \<open>a.scaleInPlace(s)\<close>.
  \<open>normalize\<close> leaves a vector of length zero or one as it is and scales every other one
  by \<open>1 / length\<close>.
\<close>

definition Dot :: "Arith \<Rightarrow> Vector3 \<Rightarrow> Vector3 \<Rightarrow> real" where
  "Dot A a b =
     fl A (fl A (fl A (vx a * vx b) + fl A (vy a * vy b)) + fl A (vz a * vz b))"

definition subtract :: "Arith \<Rightarrow> Vector3 \<Rightarrow> Vector3 \<Rightarrow> Vector3" where
  "subtract A a b = Vector3 (fl A (vx a - vx b)) (fl A (vy a - vy b)) (fl A (vz a - vz b))"

definition add :: "Arith \<Rightarrow> Vector3 \<Rightarrow> Vector3 \<Rightarrow> Vector3" where
  "add A a b = Vector3 (fl A (vx a + vx b)) (fl A (vy a + vy b)) (fl A (vz a + vz b))"

definition scale :: "Arith \<Rightarrow> Vector3 \<Rightarrow> real \<Rightarrow> Vector3" where
  "scale A a s = Vector3 (fl A (vx a * s)) (fl A (vy a * s)) (fl A (vz a * s))"

definition Cross :: "Arith \<Rightarrow> Vector3 \<Rightarrow> Vector3 \<Rightarrow> Vector3" where
  "Cross A a b =
     Vector3 (fl A (fl A (vy a * vz b) - fl A (vz a * vy b)))
             (fl A (fl A (vz a * vx b) - fl A (vx a * vz b)))
             (fl A (fl A (vx a * vy b) - fl A (vy a * vx b)))"

definition length_v :: "Arith \<Rightarrow> Vector3 \<Rightarrow> real" where
  "length_v A a =
     fl A (sqrt (fl A (fl A (fl A (vx a * vx a) + fl A (vy a * vy a)) + fl A (vz a * vz a))))"

definition normalize :: "Arith \<Rightarrow> Vector3 \<Rightarrow> Vector3" where
  "normalize A a =
     (let len = length_v A a
      in if len = 0 \<or> len = 1 then a else scale A a (fl A (1 / len)))"

definition Zero :: Vector3 where
  "Zero = Vector3 0 0 0"

definition Up :: Vector3 where
  "Up = Vector3 0 1 0"

definition Right :: Vector3 where
  "Right = Vector3 1 0 0"

record Ray =
  origin :: Vector3
  direction :: Vector3

text \<open>
  The angle between two vectors, as geometry has it, and that angle folded into
  \<open>[0, \<pi>/2]\<close>.
\<close>

definition angleBetween :: "Vector3 \<Rightarrow> Vector3 \<Rightarrow> real" where
  "angleBetween u v = arccos (Dot exact u v / (length_v exact u * length_v exact v))"

definition foldedAngleBetween :: "Vector3 \<Rightarrow> Vector3 \<Rightarrow> real" where
  "foldedAngleBetween u v =
     (let a = angleBetween u v in if a > pi / 2 then pi - a else a)"

section \<open>PointerDragBehavior\<close>

datatype DragError = MultipleDragModes

record DragOptions =
  dragAxis :: "Vector3 option"
  dragPlaneNormal :: "Vector3 option"

text \<open>
  The drag plane is a mesh of which the behaviour reads \<open>position\<close> and \<open>forward\<close>.
  \<open>attachedNode\<close> is read through its absolute position and through
  \<open>Vector3.TransformCoordinatesToRef(v, getWorldMatrix().getRotationMatrix(), _)\<close>, the
  field \<open>worldRotation\<close>. \<open>TransformNode.lookAt\<close> followed by \<open>computeWorldMatrix\<close>
  belongs to the engine; \<open>lookAtForward pos target\<close> is the forward vector that a mesh at
  \<open>pos\<close> has after looking at \<open>target\<close>. \<open>cameraForward\<close> is the direction of the active
  camera's forward ray, \<open>None\<close> without an active camera. \<open>PivotTools\<close> is taken not to
  change what is read here.
\<close>

record DragPlane =
  position :: Vector3
  forward :: Vector3

record DragEvent =
  dragDistance :: real
  delta :: Vector3
  dragPlanePoint :: Vector3
  dragPlaneNormalEv :: Vector3
  pointerId :: int

record PointerDragBehavior =
  options :: DragOptions
  maxDragAngle :: real
  useAlternatePickedPointAboveMaxDragAngle :: bool
  useAlternatePickedPointAboveMaxDragAngleDragSpeed :: real
  currentDraggingPointerId :: int
  lastDragPosition :: Vector3
  dragging :: bool
  updateDragPlane :: bool
  moving :: bool
  useObjectOrientationForDragging :: bool
  dragPlane :: DragPlane
  absolutePosition :: Vector3
  worldRotation :: "Vector3 \<Rightarrow> Vector3"
  lookAtForward :: "Vector3 \<Rightarrow> Vector3 \<Rightarrow> Vector3"
  cameraForward :: "Vector3 option"
  tmpVector :: Vector3
  alternatePickedPoint :: Vector3
  worldDragAxis :: Vector3
  targetPosition :: Vector3
  dragDelta :: Vector3
  pointA :: Vector3
  pointC :: Vector3
  localAxis :: Vector3
  lookAt :: Vector3
  TmpVectors0 :: Vector3
  onDragObservable :: "DragEvent list"

text \<open>
  The constructor: a \<open>Vector3\<close> object is truthy, so an option counts when it is present.
  A fresh object gets the initialisers of the class; what \<open>attach\<close> sets later (the drag
  plane, the attached node, what is read of the scene) starts from fixed values here.
\<close>

definition newBehavior :: "DragOptions \<Rightarrow> PointerDragBehavior" where
  "newBehavior opts =
     \<lparr> options = opts, maxDragAngle = 0, useAlternatePickedPointAboveMaxDragAngle = False,
       useAlternatePickedPointAboveMaxDragAngleDragSpeed = - 11 / 10,
       currentDraggingPointerId = - 1, lastDragPosition = Zero, dragging = False,
       updateDragPlane = True, moving = False, useObjectOrientationForDragging = True,
       dragPlane = \<lparr> position = Zero, forward = Vector3 0 0 1 \<rparr>, absolutePosition = Zero,
       worldRotation = (\<lambda>v. v), lookAtForward = (\<lambda>p t. normalize exact (subtract exact t p)),
       cameraForward = None, tmpVector = Zero, alternatePickedPoint = Zero,
       worldDragAxis = Zero, targetPosition = Zero, dragDelta = Zero, pointA = Zero,
       pointC = Zero, localAxis = Zero, lookAt = Zero, TmpVectors0 = Zero,
       onDragObservable = [] \<rparr>"

definition emptyOptions :: DragOptions where
  "emptyOptions = \<lparr> dragAxis = None, dragPlaneNormal = None \<rparr>"

definition optionCount :: "DragOptions \<Rightarrow> nat" where
  "optionCount opts =
     (let c0 = 0;
          c1 = (if dragAxis opts \<noteq> None then c0 + 1 else c0);
          c2 = (if dragPlaneNormal opts \<noteq> None then c1 + 1 else c1)
      in c2)"

definition constructor :: "DragOptions option \<Rightarrow> DragError + PointerDragBehavior" where
  "constructor opts =
     (let this = newBehavior (case opts of Some os \<Rightarrow> os | None \<Rightarrow> emptyOptions)
      in if optionCount (options this) > 1 then Inl MultipleDragModes else Inr this)"

text \<open>
  \<open>_pickWithRayOnDragPlane\<close>, in the arithmetic \<open>A\<close>. \<open>Epsilon\<close> of
  \<open>Maths/math.constants\<close> is not among the source files and is a parameter. The result
  is the picked point (\<open>None\<close> for \<open>null\<close>) and the behaviour with its scratch vectors
  written.
\<close>

definition foldedAngle :: "Arith \<Rightarrow> Vector3 \<Rightarrow> Vector3 \<Rightarrow> real option" where
  "foldedAngle A n d =
     (case Math_acos A (Dot A n d) of
        None \<Rightarrow> None
      | Some angle \<Rightarrow>
          Some (if angle > fl A (Math_PI A / 2) then fl A (Math_PI A - angle) else angle))"

definition pickWithRayOnDragPlane ::
  "Arith \<Rightarrow> real \<Rightarrow> Ray option \<Rightarrow> PointerDragBehavior
     \<Rightarrow> Vector3 option \<times> PointerDragBehavior" where
  "pickWithRayOnDragPlane A Epsilon ray this =
     (case ray of
        None \<Rightarrow> (None, this)
      | Some r \<Rightarrow>
          let angle = foldedAngle A (forward (dragPlane this)) (direction r) in
          if maxDragAngle this > 0 \<and> gt_nan angle (maxDragAngle this) then
            (if useAlternatePickedPointAboveMaxDragAngle this then
               (let tmp1 = direction r;
                    alt1 = subtract A (absolutePosition this) (origin r);
                    alt2 = normalize A alt1;
                    alt3 = scale A alt2
                      (fl A (useAlternatePickedPointAboveMaxDragAngleDragSpeed this
                               * Dot A alt2 tmp1));
                    tmp2 = add A tmp1 alt3;
                    dot = Dot A (forward (dragPlane this)) tmp2;
                    alt4 = scale A (forward (dragPlane this)) (- dot);
                    alt5 = add A alt4 tmp2;
                    alt6 = add A alt5 (absolutePosition this)
                in (Some alt6, this\<lparr> tmpVector := tmp2, alternatePickedPoint := alt6 \<rparr>))
             else (None, this))
          else
            (let planeNormal = forward (dragPlane this);
                 planePosition = position (dragPlane this);
                 dotProduct = Dot A (direction r) planeNormal
             in if \<bar>dotProduct\<bar> < Epsilon then (None, this)
                else
                  (let tmp0 = subtract A planePosition (origin r);
                       t = fl A (Dot A tmp0 planeNormal / dotProduct)
                   in if t < 0 then (None, this\<lparr> TmpVectors0 := tmp0 \<rparr>)
                      else
                        (let tmp0' = scale A (direction r) t;
                             intersectionPoint = add A (origin r) tmp0'
                         in (Some intersectionPoint, this\<lparr> TmpVectors0 := tmp0' \<rparr>)))))"

text \<open>
  \<open>_updateDragPlanePosition\<close>: positions the drag plane and turns it. \<open>CrossToRef\<close>
  and \<open>addToRef\<close> compute their result before they write it, so a result that is also an
  argument is read first.
\<close>

definition planeLookAt :: "Vector3 \<Rightarrow> PointerDragBehavior \<Rightarrow> PointerDragBehavior" where
  "planeLookAt target this =
     this\<lparr> dragPlane := (dragPlane this)
       \<lparr> forward := lookAtForward this (position (dragPlane this)) target \<rparr> \<rparr>"

definition planeSetPosition :: "Vector3 \<Rightarrow> PointerDragBehavior \<Rightarrow> PointerDragBehavior" where
  "planeSetPosition p this = this\<lparr> dragPlane := (dragPlane this)\<lparr> position := p \<rparr> \<rparr>"

definition updateDragPlanePosition ::
  "Arith \<Rightarrow> Ray \<Rightarrow> Vector3 \<Rightarrow> PointerDragBehavior \<Rightarrow> PointerDragBehavior" where
  "updateDragPlanePosition A ray dragPlanePosition this0 =
     (let this1 = this0\<lparr> pointA := dragPlanePosition \<rparr>;
          this2 =
            (case dragAxis (options this1) of
               Some axis \<Rightarrow>
                 (let a = this1\<lparr> localAxis :=
                            (if useObjectOrientationForDragging this1
                             then worldRotation this1 axis else axis) \<rparr>;
                      b = a\<lparr> pointC := normalize A (subtract A (origin ray) (pointA a)) \<rparr>;
                      c = (if \<bar>Dot A (localAxis b) (pointC b)\<bar> > fl A (999 / 1000) then
                             (if \<bar>Dot A Up (pointC b)\<bar> > fl A (999 / 1000)
                              then b\<lparr> lookAt := Right \<rparr>
                              else b\<lparr> lookAt := Up \<rparr>)
                           else
                             (let l1 = Cross A (localAxis b) (pointC b);
                                  l2 = Cross A (localAxis b) l1
                              in b\<lparr> lookAt := normalize A l2 \<rparr>));
                      d = planeSetPosition (pointA c) c;
                      e = d\<lparr> lookAt := add A (pointA d) (lookAt d) \<rparr>
                  in planeLookAt (lookAt e) e)
             | None \<Rightarrow>
                 (case dragPlaneNormal (options this1) of
                    Some normal \<Rightarrow>
                      (let a = this1\<lparr> localAxis :=
                                 (if useObjectOrientationForDragging this1
                                  then worldRotation this1 normal else normal) \<rparr>;
                           b = planeSetPosition (pointA a) a;
                           c = b\<lparr> lookAt := add A (pointA b) (localAxis b) \<rparr>
                       in planeLookAt (lookAt c) c)
                  | None \<Rightarrow>
                      (let a = (case cameraForward this1 of
                                  Some f \<Rightarrow> this1\<lparr> localAxis := normalize A f \<rparr>
                                | None \<Rightarrow> this1);
                           b = planeSetPosition (pointA a) a
                       in planeLookAt (add A (pointA b) (localAxis b)) b)))
      in planeSetPosition (absolutePosition this2) this2)"

text \<open>
  \<open>_moveDrag\<close>. Notifying \<open>onDragObservable\<close> appends the event to the list of what its
  observers received.
\<close>

definition notifyDrag :: "real \<Rightarrow> Vector3 \<Rightarrow> PointerDragBehavior \<Rightarrow> PointerDragBehavior" where
  "notifyDrag dragLength pickedPoint this =
     this\<lparr> onDragObservable := onDragObservable this @
       [\<lparr> dragDistance = dragLength, delta = dragDelta this, dragPlanePoint = pickedPoint,
          dragPlaneNormalEv = forward (dragPlane this),
          pointerId = currentDraggingPointerId this \<rparr>] \<rparr>"

definition moveDrag :: "Arith \<Rightarrow> real \<Rightarrow> Ray \<Rightarrow> PointerDragBehavior \<Rightarrow> PointerDragBehavior" where
  "moveDrag A Epsilon ray this0 =
     (let this1 = this0\<lparr> moving := True \<rparr> in
      case pickWithRayOnDragPlane A Epsilon (Some ray) this1 of
        (None, this2) \<Rightarrow> this2
      | (Some pickedPoint, this2) \<Rightarrow>
          (let this3 = (if updateDragPlane this2
                        then updateDragPlanePosition A ray pickedPoint this2 else this2);
               (dragLength, this4) =
                 (case dragAxis (options this3) of
                    Some axis \<Rightarrow>
                      (let a = this3\<lparr> worldDragAxis :=
                                 (if useObjectOrientationForDragging this3
                                  then worldRotation this3 axis else axis) \<rparr>;
                           b = a\<lparr> tmpVector := subtract A pickedPoint (lastDragPosition a) \<rparr>;
                           c = b\<lparr> worldDragAxis := normalize A (worldDragAxis b) \<rparr>;
                           len = Dot A (tmpVector c) (worldDragAxis c)
                       in (len, c\<lparr> dragDelta := scale A (worldDragAxis c) len \<rparr>))
                  | None \<Rightarrow>
                      (let len = length_v A (dragDelta this3)
                       in (len, this3\<lparr> dragDelta :=
                                 subtract A pickedPoint (lastDragPosition this3) \<rparr>)));
               this5 = this4\<lparr> targetPosition :=
                                add A (targetPosition this4) (dragDelta this4) \<rparr>;
               this6 = notifyDrag dragLength pickedPoint this5
           in this6\<lparr> lastDragPosition := pickedPoint \<rparr>))"

text \<open>Concrete inputs, used to run the definitions.\<close>

definition axisBehavior :: PointerDragBehavior where
  "axisBehavior = newBehavior \<lparr> dragAxis = Some (Vector3 2 0 0), dragPlaneNormal = None \<rparr>"

definition freeBehavior :: PointerDragBehavior where
  "freeBehavior = newBehavior emptyOptions"

definition frontRay :: Ray where
  "frontRay = \<lparr> origin = Vector3 2 0 (- 5), direction = Vector3 0 0 1 \<rparr>"

definition backRay :: Ray where
  "backRay = \<lparr> origin = Vector3 2 0 5, direction = Vector3 0 0 1 \<rparr>"

text \<open>
  A node turned a quarter about the \<open>z\<close> axis, dragged along its own \<open>x\<close> axis; a ray
  from in front of it.
\<close>

definition turnedBehavior :: PointerDragBehavior where
  "turnedBehavior =
     (newBehavior \<lparr> dragAxis = Some (Vector3 2 0 0), dragPlaneNormal = None \<rparr>)
       \<lparr> worldRotation := (\<lambda>v. Vector3 (- vy v) (vx v) (vz v)) \<rparr>"

definition highRay :: Ray where
  "highRay = \<lparr> origin = Vector3 2 3 (- 5), direction = Vector3 0 0 1 \<rparr>"

text \<open>
  Inputs in doubles: a ray whose direction has length 49; an axis of computed length one
  that is not along a coordinate axis, with a ray that picks the point
  \<open>(1 + 1 / 2 ^ 52, 0, 0)\<close>; a ray that is not of unit length, at an eighth of a turn to the
  normal; a unit ray at the same angle; and a behaviour that refuses rays at more than a
  quarter of a radian.
\<close>

definition steepRay :: Ray where
  "steepRay = \<lparr> origin = Vector3 0 0 (- 1), direction = Vector3 0 0 49 \<rparr>"

definition skewBehavior :: PointerDragBehavior where
  "skewBehavior =
     (newBehavior \<lparr> dragAxis = Some (Vector3 1 (5 / 2 ^ 30) 0), dragPlaneNormal = None \<rparr>)
       \<lparr> updateDragPlane := False, useObjectOrientationForDragging := False \<rparr>"

definition skewRay :: Ray where
  "skewRay = \<lparr> origin = Vector3 (1 + 1 / 2 ^ 52) 0 (- 1), direction = Vector3 0 0 1 \<rparr>"

definition slantRay :: Ray where
  "slantRay = \<lparr> origin = Vector3 0 0 (- 5), direction = Vector3 1 0 1 \<rparr>"

definition unitSlantRay :: Ray where
  "unitSlantRay = \<lparr> origin = Vector3 0 0 (- 1),
                    direction = Vector3 (sqrt 2 / 2) 0 (sqrt 2 / 2) \<rparr>"


section \<open>Thin instances\<close>

text \<open>
  A \<open>Matrix\<close> is read through its sixteen floats \<open>_m[0] \<dots> _m[15]\<close>. A
  \<open>Float32Array\<close> is a list of numbers. Counts, indices and sizes are integers: a
  JavaScript number that is not whole is outside this model.
\<close>

type_synonym Matrix = "nat \<Rightarrow> real"

type_synonym Float32Array = "real list"

datatype JsError = RangeError

text \<open>
  A store into a typed array at an index outside it is dropped. \<open>new Float32Array(n)\<close>
  throws for a negative length, and \<open>target.set(src, 0)\<close> throws when the source is
  longer than the target.
\<close>

definition f32_store :: "Float32Array \<Rightarrow> int \<Rightarrow> real \<Rightarrow> Float32Array" where
  "f32_store a i v = (if 0 \<le> i \<and> i < int (length a) then a[nat i := v] else a)"

definition new_Float32Array :: "int \<Rightarrow> JsError + Float32Array" where
  "new_Float32Array n = (if n < 0 then Inl RangeError else Inr (replicate (nat n) 0))"

definition f32_set :: "Float32Array \<Rightarrow> Float32Array \<Rightarrow> JsError + Float32Array" where
  "f32_set target src =
     (if length src > length target then Inl RangeError
      else Inr (src @ drop (length src) target))"

text \<open>\<open>Matrix.copyToArray(array, offset)\<close>: sixteen stores, \<open>array[offset + k] = _m[k]\<close>.\<close>

definition copyToArray :: "Matrix \<Rightarrow> Float32Array \<Rightarrow> int \<Rightarrow> Float32Array" where
  "copyToArray m a offset = fold (\<lambda>k acc. f32_store acc (offset + int k) (m k)) [0..<16] a"

text \<open>
  Modelled from the spec: the classes \<open>Buffer\<close> and \<open>VertexBuffer\<close> of \<open>Buffers/buffer\<close>
  are not among the source files. The spec calls this layer GPU buffer bookkeeping over an
  existing vertex-buffer abstraction; a buffer is kept as whether it is updatable and the
  data last uploaded to it, and \<open>updateDirectly\<close> uploads to an updatable buffer. The two
  kind names are the static fields \<open>ColorKind\<close> and \<open>ColorInstanceKind\<close> of
  \<open>VertexBuffer\<close>.
\<close>

record Buffer =
  updatable :: bool
  uploaded :: Float32Array

definition ColorKind :: string where
  "ColorKind = ''color''"

definition ColorInstanceKind :: string where
  "ColorInstanceKind = ''instanceColor''"

definition updateDirectly :: "Float32Array \<Rightarrow> Buffer \<Rightarrow> Buffer" where
  "updateDirectly d b = (if updatable b then b\<lparr> uploaded := d \<rparr> else b)"

record ThinInstanceDataStorage =
  instancesCount :: int
  matrixBuffer :: "Buffer option"
  previousMatrixBuffer :: "Buffer option"
  matrixBufferSize :: int
  matrixData :: "Float32Array option"
  previousMatrixData :: "Float32Array option"
  worldMatrices :: "(int \<rightharpoonup> Matrix) option"

record UserThinInstanceBuffersStorage =
  data :: "string \<rightharpoonup> Float32Array"
  sizes :: "string \<rightharpoonup> int"
  vertexBuffers :: "string \<rightharpoonup> Buffer"
  strides :: "string \<rightharpoonup> int"

text \<open>
  The mesh, as far as the thin-instance methods read and write it. \<open>instancedArrays\<close>
  is \<open>getScene().getEngine().getCaps().instancedArrays\<close>; \<open>source\<close> is the storage of
  the source mesh, when there is one; \<open>boundingInfoRefreshes\<close> counts the recomputations
  of the bounding info and \<open>loggedErrors\<close> the calls of \<open>Logger.Error\<close>.
\<close>

record Mesh =
  instancedArrays :: bool
  thinInstanceDataStorage :: ThinInstanceDataStorage
  userThinInstanceBuffersStorage :: "UserThinInstanceBuffersStorage option"
  source :: "ThinInstanceDataStorage option"
  needsPreviousWorldMatrices :: bool
  doNotSyncBoundingInfo :: bool
  thinInstanceAllowAutomaticStaticBufferRecreation :: bool
  boundingInfoRefreshes :: nat
  loggedErrors :: nat

definition thinInstanceCreateMatrixBuffer :: "Float32Array option \<Rightarrow> bool \<Rightarrow> Buffer" where
  "thinInstanceCreateMatrixBuffer buffer staticBuffer =
     \<lparr> updatable = \<not> staticBuffer,
       uploaded = (case buffer of Some d \<Rightarrow> d | None \<Rightarrow> []) \<rparr>"

definition normalizeKind :: "string \<Rightarrow> string" where
  "normalizeKind kind = (if kind = ColorKind then ColorInstanceKind else kind)"

text \<open>\<open>_thinInstanceRecreateBuffer\<close>, with its default \<open>staticBuffer = true\<close>.\<close>

definition thinInstanceRecreateBuffer :: "string \<Rightarrow> bool \<Rightarrow> Mesh \<Rightarrow> Mesh" where
  "thinInstanceRecreateBuffer kind0 staticBuffer this =
     (let st = thinInstanceDataStorage this in
      if kind0 = ''matrix'' then
        this\<lparr> thinInstanceDataStorage := st
          \<lparr> matrixBuffer := Some (thinInstanceCreateMatrixBuffer (matrixData st) staticBuffer) \<rparr> \<rparr>
      else if kind0 = ''previousMatrix'' then
        (if needsPreviousWorldMatrices this then
           this\<lparr> thinInstanceDataStorage := st
             \<lparr> previousMatrixBuffer := Some (thinInstanceCreateMatrixBuffer
                 (case previousMatrixData st of Some d \<Rightarrow> Some d | None \<Rightarrow> matrixData st)
                 staticBuffer) \<rparr> \<rparr>
         else this)
      else
        (let kind = normalizeKind kind0 in
         case userThinInstanceBuffersStorage this of
           None \<Rightarrow> this
         | Some u \<Rightarrow>
             this\<lparr> userThinInstanceBuffersStorage := Some (u
               \<lparr> vertexBuffers := (vertexBuffers u)
                   (kind \<mapsto> thinInstanceCreateMatrixBuffer (data u kind) staticBuffer) \<rparr>) \<rparr>))"

text \<open>\<open>thinInstanceBufferUpdated\<close>: recreate a static buffer when allowed, then upload.\<close>

definition thinInstanceBufferUpdated :: "string \<Rightarrow> Mesh \<Rightarrow> Mesh" where
  "thinInstanceBufferUpdated kind0 this =
     (if kind0 = ''matrix'' then
        (let this1 =
               (case matrixBuffer (thinInstanceDataStorage this) of
                  Some b \<Rightarrow>
                    if thinInstanceAllowAutomaticStaticBufferRecreation this \<and> \<not> updatable b
                    then thinInstanceRecreateBuffer kind0 True this else this
                | None \<Rightarrow> this);
             st = thinInstanceDataStorage this1
         in case (matrixBuffer st, matrixData st) of
              (Some b, Some d) \<Rightarrow>
                this1\<lparr> thinInstanceDataStorage := st\<lparr> matrixBuffer := Some (updateDirectly d b) \<rparr> \<rparr>
            | _ \<Rightarrow> this1)
      else if kind0 = ''previousMatrix'' then
        (let this1 =
               (case previousMatrixBuffer (thinInstanceDataStorage this) of
                  Some b \<Rightarrow>
                    if thinInstanceAllowAutomaticStaticBufferRecreation this \<and> \<not> updatable b
                    then thinInstanceRecreateBuffer kind0 True this else this
                | None \<Rightarrow> this);
             st = thinInstanceDataStorage this1
         in case (previousMatrixBuffer st, previousMatrixData st) of
              (Some b, Some d) \<Rightarrow>
                this1\<lparr> thinInstanceDataStorage := st
                  \<lparr> previousMatrixBuffer := Some (updateDirectly d b) \<rparr> \<rparr>
            | _ \<Rightarrow> this1)
      else
        (let kind = normalizeKind kind0 in
         case userThinInstanceBuffersStorage this of
           None \<Rightarrow> this
         | Some u \<Rightarrow>
             (case vertexBuffers u kind of
                None \<Rightarrow> this
              | Some b \<Rightarrow>
                  (let this1 =
                         (if thinInstanceAllowAutomaticStaticBufferRecreation this \<and> \<not> updatable b
                          then thinInstanceRecreateBuffer kind True this else this)
                   in case userThinInstanceBuffersStorage this1 of
                        None \<Rightarrow> this1
                      | Some u1 \<Rightarrow>
                          (case (vertexBuffers u1 kind, data u1 kind) of
                             (Some b1, Some d) \<Rightarrow>
                               this1\<lparr> userThinInstanceBuffersStorage := Some (u1
                                 \<lparr> vertexBuffers := (vertexBuffers u1)
                                     (kind \<mapsto> updateDirectly d b1) \<rparr>) \<rparr>
                           | _ \<Rightarrow> this1)))))"

text \<open>
  \<open>thinInstanceRefreshBoundingInfo\<close> returns at once without matrix data or matrix
  buffer; otherwise it recomputes the bounding info, which is counted.
\<close>

definition thinInstanceRefreshBoundingInfo :: "Mesh \<Rightarrow> Mesh" where
  "thinInstanceRefreshBoundingInfo this =
     (let st = thinInstanceDataStorage this in
      if matrixData st = None \<or> matrixBuffer st = None then this
      else this\<lparr> boundingInfoRefreshes := boundingInfoRefreshes this + 1 \<rparr>)"

text \<open>\<open>thinInstanceSetMatrixAt\<close>: the returned boolean and the mesh after the call.\<close>

definition thinInstanceSetMatrixAt :: "int \<Rightarrow> Matrix \<Rightarrow> bool \<Rightarrow> Mesh \<Rightarrow> bool \<times> Mesh" where
  "thinInstanceSetMatrixAt index matrix refresh this =
     (let st = thinInstanceDataStorage this in
      case matrixData st of
        None \<Rightarrow> (False, this)
      | Some md \<Rightarrow>
          if index \<ge> instancesCount st then (False, this)
          else
            (let st1 = st\<lparr> matrixData := Some (copyToArray matrix md (index * 16)) \<rparr>;
                 st2 = (case worldMatrices st1 of
                          Some wm \<Rightarrow> st1\<lparr> worldMatrices := Some (wm(index \<mapsto> matrix)) \<rparr>
                        | None \<Rightarrow> st1);
                 this2 = this\<lparr> thinInstanceDataStorage := st2 \<rparr>;
                 this3 = (if refresh then
                            (let a = thinInstanceBufferUpdated ''matrix'' this2
                             in if \<not> doNotSyncBoundingInfo a
                                then thinInstanceRefreshBoundingInfo a else a)
                          else this2)
             in (True, this3)))"

text \<open>The setter of \<open>thinInstanceCount\<close>; the getter is \<open>instancesCount\<close>.\<close>

definition effectiveMatrixData :: "Mesh \<Rightarrow> Float32Array option" where
  "effectiveMatrixData this =
     (case matrixData (thinInstanceDataStorage this) of
        Some d \<Rightarrow> Some d
      | None \<Rightarrow> (case source this of Some src \<Rightarrow> matrixData src | None \<Rightarrow> None))"

definition numMaxInstances :: "Mesh \<Rightarrow> rat" where
  "numMaxInstances this =
     (case effectiveMatrixData this of Some d \<Rightarrow> of_nat (length d) / 16 | None \<Rightarrow> 0)"

definition set_thinInstanceCount :: "int \<Rightarrow> Mesh \<Rightarrow> Mesh" where
  "set_thinInstanceCount v this =
     (if of_int v \<le> numMaxInstances this
      then this\<lparr> thinInstanceDataStorage := (thinInstanceDataStorage this)\<lparr> instancesCount := v \<rparr> \<rparr>
      else this)"

text \<open>
  \<open>_thinInstanceUpdateBufferSize\<close>. Its loop \<open>while (newSize < bufferSize) newSize *= 2\<close>
  need not end, so it is a partial function: \<open>None\<close> is a loop that never returns. The
  function itself returns \<open>None\<close> when the loop does not end, \<open>Some (Inl e)\<close> when an
  allocation throws, and \<open>Some (Inr mesh)\<close> otherwise.
\<close>

partial_function (option) growSize :: "int \<Rightarrow> int \<Rightarrow> int option" where
  "growSize newSize bufferSize =
     (if newSize < bufferSize then growSize (newSize * 2) bufferSize else Some newSize)"

text \<open>
  The locals \<open>stride\<close>, \<open>currentSize\<close> and \<open>data\<close> of the function, for a kind already
  normalised. \<open>None\<close> is \<open>undefined\<close>; a stride of \<open>undefined\<close> or \<open>0\<close> is falsy.
\<close>

definition strideOf :: "Mesh \<Rightarrow> string \<Rightarrow> int option" where
  "strideOf this kind =
     (if kind = ''matrix'' then Some 16
      else (case userThinInstanceBuffersStorage this of
              None \<Rightarrow> None
            | Some u \<Rightarrow> strides u kind))"

definition currentSizeOf :: "Mesh \<Rightarrow> string \<Rightarrow> int option" where
  "currentSizeOf this kind =
     (if kind = ''matrix'' then Some (matrixBufferSize (thinInstanceDataStorage this))
      else (case userThinInstanceBuffersStorage this of
              None \<Rightarrow> None
            | Some u \<Rightarrow> sizes u kind))"

definition dataOf :: "Mesh \<Rightarrow> string \<Rightarrow> Float32Array option" where
  "dataOf this kind =
     (if kind = ''matrix'' then matrixData (thinInstanceDataStorage this)
      else (case userThinInstanceBuffersStorage this of
              None \<Rightarrow> None
            | Some u \<Rightarrow> data u kind))"

text \<open>
  Storing the new array: for the matrix kind a new updatable matrix buffer is made, and
  one for the previous matrices when the scene needs them and none were given; for another
  kind the three dictionaries are written.
\<close>

definition storeResized :: "string \<Rightarrow> Float32Array \<Rightarrow> int option \<Rightarrow> Mesh \<Rightarrow> Mesh" where
  "storeResized kind d newSize this =
     (if kind = ''matrix'' then
        (let st = thinInstanceDataStorage this;
             st1 = st\<lparr> matrixBuffer := Some (thinInstanceCreateMatrixBuffer (Some d) False),
                       matrixData := Some d,
                       matrixBufferSize := (case newSize of Some n \<Rightarrow> n | None \<Rightarrow> 0) \<rparr>;
             st2 = (if needsPreviousWorldMatrices this \<and> previousMatrixData st1 = None
                    then st1\<lparr> previousMatrixBuffer :=
                                Some (thinInstanceCreateMatrixBuffer (Some d) False) \<rparr>
                    else st1)
         in this\<lparr> thinInstanceDataStorage := st2 \<rparr>)
      else
        (case userThinInstanceBuffersStorage this of
           None \<Rightarrow> this
         | Some u \<Rightarrow>
             this\<lparr> userThinInstanceBuffersStorage := Some (u
               \<lparr> data := (data u)(kind \<mapsto> d),
                 sizes := (sizes u)(kind := newSize),
                 vertexBuffers := (vertexBuffers u)
                   (kind \<mapsto> thinInstanceCreateMatrixBuffer (Some d) False) \<rparr>) \<rparr>))"

definition thinInstanceUpdateBufferSize ::
  "string \<Rightarrow> int \<Rightarrow> Mesh \<Rightarrow> (JsError + Mesh) option" where
  "thinInstanceUpdateBufferSize kind0 numInstances this =
     (let kind = normalizeKind kind0 in
      case strideOf this kind of
        None \<Rightarrow> Some (Inr this)
      | Some stride \<Rightarrow>
          if stride = 0 then Some (Inr this)
          else
            (let bufferSize = (instancesCount (thinInstanceDataStorage this) + numInstances) * stride
             in case currentSizeOf this kind of
                  None \<Rightarrow>
                    (case dataOf this kind of
                       None \<Rightarrow> Some (Inr (storeResized kind [] None this))
                     | Some d \<Rightarrow> Some (Inr this))
                | Some currentSize \<Rightarrow>
                    (case growSize currentSize bufferSize of
                       None \<Rightarrow> None
                     | Some newSize \<Rightarrow>
                         (case dataOf this kind of
                            None \<Rightarrow>
                              (case new_Float32Array newSize of
                                 Inl e \<Rightarrow> Some (Inl e)
                               | Inr d \<Rightarrow> Some (Inr (storeResized kind d (Some newSize) this)))
                          | Some old \<Rightarrow>
                              if currentSize \<noteq> newSize then
                                (case new_Float32Array newSize of
                                   Inl e \<Rightarrow> Some (Inl e)
                                 | Inr newData \<Rightarrow>
                                     (case f32_set newData old of
                                        Inl e \<Rightarrow> Some (Inl e)
                                      | Inr d \<Rightarrow>
                                          Some (Inr (storeResized kind d (Some newSize) this))))
                              else Some (Inr this)))))"

text \<open>
  \<open>thinInstanceAdd\<close>. The argument \<open>instancesCount++\<close> passes the old count and has
  increased the count when \<open>thinInstanceSetMatrixAt\<close> runs.
\<close>

datatype MatrixArg = Single Matrix | Array "Matrix list"

fun addMatrices :: "Matrix list \<Rightarrow> int \<Rightarrow> int \<Rightarrow> bool \<Rightarrow> Mesh \<Rightarrow> Mesh" where
  "addMatrices [] i n refresh this = this"
| "addMatrices (mat # rest) i n refresh this =
     (let st = thinInstanceDataStorage this;
          index = instancesCount st;
          this1 = this\<lparr> thinInstanceDataStorage := st\<lparr> instancesCount := index + 1 \<rparr> \<rparr>;
          this2 = snd (thinInstanceSetMatrixAt index mat (i = n - 1 \<and> refresh) this1)
      in addMatrices rest (i + 1) n refresh this2)"

definition thinInstanceAdd ::
  "MatrixArg \<Rightarrow> bool \<Rightarrow> Mesh \<Rightarrow> (JsError + int \<times> Mesh) option" where
  "thinInstanceAdd matrix refresh this =
     (if \<not> instancedArrays this
      then Some (Inr (- 1, this\<lparr> loggedErrors := loggedErrors this + 1 \<rparr>))
      else
        (case thinInstanceUpdateBufferSize ''matrix''
                (case matrix of Array ms \<Rightarrow> int (length ms) | Single m \<Rightarrow> 1) this of
           None \<Rightarrow> None
         | Some (Inl e) \<Rightarrow> Some (Inl e)
         | Some (Inr this1) \<Rightarrow>
             (let index = instancesCount (thinInstanceDataStorage this1)
              in case matrix of
                   Array ms \<Rightarrow>
                     Some (Inr (index, addMatrices ms 0 (int (length ms)) refresh this1))
                 | Single m \<Rightarrow>
                     (let st = thinInstanceDataStorage this1;
                          this2 = this1\<lparr> thinInstanceDataStorage :=
                                    st\<lparr> instancesCount := index + 1 \<rparr> \<rparr>
                      in Some (Inr (index, snd (thinInstanceSetMatrixAt index m refresh this2)))))))"

text \<open>
  \<open>thinInstanceSetBuffer\<close>. The count it stores is \<open>buffer.length / stride\<close>; where that
  is not a whole number the result is outside this model, which \<open>Inl FractionalCount\<close>
  says. The mesh's own \<open>refreshBoundingInfo\<close> is counted like the thin-instance one.
\<close>

datatype ModelLimit = FractionalCount

definition thinInstanceInitializeUserStorage :: "Mesh \<Rightarrow> Mesh" where
  "thinInstanceInitializeUserStorage this =
     (case userThinInstanceBuffersStorage this of
        None \<Rightarrow> this\<lparr> userThinInstanceBuffersStorage :=
                  Some \<lparr> data = Map.empty, sizes = Map.empty, vertexBuffers = Map.empty,
                         strides = Map.empty \<rparr> \<rparr>
      | Some u \<Rightarrow> this)"

definition thinInstanceSetBuffer ::
  "string \<Rightarrow> Float32Array option \<Rightarrow> int \<Rightarrow> bool \<Rightarrow> Mesh \<Rightarrow> ModelLimit + Mesh" where
  "thinInstanceSetBuffer kind0 buffer stride0 staticBuffer this =
     (let stride = (if stride0 = 0 then 16 else stride0);
          st = thinInstanceDataStorage this in
      if kind0 = ''matrix'' then
        (let st1 = st\<lparr> matrixBuffer := None,
                       matrixBufferSize :=
                         (case buffer of Some b \<Rightarrow> int (length b) | None \<Rightarrow> 32 * stride),
                       matrixData := buffer, worldMatrices := None \<rparr>
         in case buffer of
              Some b \<Rightarrow>
                if \<not> stride dvd int (length b) then Inl FractionalCount
                else
                  (let st2 = st1\<lparr> instancesCount := int (length b) div stride,
                                  matrixBuffer :=
                                    Some (thinInstanceCreateMatrixBuffer buffer staticBuffer) \<rparr>;
                       this2 = this\<lparr> thinInstanceDataStorage := st2 \<rparr>
                   in Inr (if \<not> doNotSyncBoundingInfo this2
                           then thinInstanceRefreshBoundingInfo this2 else this2))
            | None \<Rightarrow>
                (let this2 = this\<lparr> thinInstanceDataStorage := st1\<lparr> instancesCount := 0 \<rparr> \<rparr>
                 in Inr (if \<not> doNotSyncBoundingInfo this2
                         then this2\<lparr> boundingInfoRefreshes := boundingInfoRefreshes this2 + 1 \<rparr>
                         else this2)))
      else if kind0 = ''previousMatrix'' then
        Inr (this\<lparr> thinInstanceDataStorage := st
               \<lparr> previousMatrixBuffer :=
                   (case buffer of
                      Some b \<Rightarrow> Some (thinInstanceCreateMatrixBuffer buffer staticBuffer)
                    | None \<Rightarrow> None),
                 previousMatrixData := buffer \<rparr> \<rparr>)
      else
        (let kind = normalizeKind kind0 in
         case buffer of
           None \<Rightarrow>
             (case userThinInstanceBuffersStorage this of
                None \<Rightarrow> Inr this
              | Some u \<Rightarrow>
                  if data u kind = None then Inr this
                  else Inr (this\<lparr> userThinInstanceBuffersStorage := Some (u
                         \<lparr> data := (data u)(kind := None), sizes := (sizes u)(kind := None),
                           vertexBuffers := (vertexBuffers u)(kind := None),
                           strides := (strides u)(kind := None) \<rparr>) \<rparr>))
         | Some b \<Rightarrow>
             (let this1 = thinInstanceInitializeUserStorage this in
              case userThinInstanceBuffersStorage this1 of
                None \<Rightarrow> Inr this1
              | Some u \<Rightarrow>
                  Inr (this1\<lparr> userThinInstanceBuffersStorage := Some (u
                         \<lparr> data := (data u)(kind \<mapsto> b),
                           sizes := (sizes u)(kind \<mapsto> int (length b)),
                           vertexBuffers := (vertexBuffers u)
                             (kind \<mapsto> thinInstanceCreateMatrixBuffer buffer staticBuffer),
                           strides := (strides u)(kind \<mapsto> stride) \<rparr>) \<rparr>))))"

text \<open>
  A mesh without thin instances, with the storage that \<open>thinInstanceSetBuffer("matrix",
  null)\<close> leaves: no instances, no matrix data, room recorded for 32 matrices.
  \<open>identityMatrix\<close> is \<open>Matrix.Identity()\<close>.
\<close>

definition newMesh :: Mesh where
  "newMesh =
     \<lparr> instancedArrays = True,
       thinInstanceDataStorage =
         \<lparr> instancesCount = 0, matrixBuffer = None, previousMatrixBuffer = None,
           matrixBufferSize = 32 * 16, matrixData = None, previousMatrixData = None,
           worldMatrices = None \<rparr>,
       userThinInstanceBuffersStorage = None, source = None,
       needsPreviousWorldMatrices = False, doNotSyncBoundingInfo = False,
       thinInstanceAllowAutomaticStaticBufferRecreation = False,
       boundingInfoRefreshes = 0, loggedErrors = 0 \<rparr>"

definition identityMatrix :: Matrix where
  "identityMatrix = (\<lambda>k. if k mod 5 = 0 then 1 else 0)"


text \<open>
  The recorded sizes follow the arrays: the matrix data has the recorded length, and every
  kind with an array or a stride has its recorded size, the length of its array. The
  methods below keep this.
\<close>

definition storageInSync :: "Mesh \<Rightarrow> bool" where
  "storageInSync this =
     ((\<forall>d. matrixData (thinInstanceDataStorage this) = Some d \<longrightarrow>
           int (length d) = matrixBufferSize (thinInstanceDataStorage this))
      \<and> (\<forall>u k. userThinInstanceBuffersStorage this = Some u \<longrightarrow>
            (\<forall>d. data u k = Some d \<longrightarrow> sizes u k = Some (int (length d)))
            \<and> (strides u k \<noteq> None \<longrightarrow> sizes u k \<noteq> None)))"

text \<open>Concrete meshes, used to run the definitions.\<close>

definition oneInstanceMesh :: Mesh where
  "oneInstanceMesh =
     newMesh\<lparr> thinInstanceDataStorage := (thinInstanceDataStorage newMesh)
       \<lparr> instancesCount := 1, matrixBufferSize := 16, matrixData := Some (replicate 16 0) \<rparr> \<rparr>"

definition emptyBufferMesh :: Mesh where
  "emptyBufferMesh =
     newMesh\<lparr> thinInstanceDataStorage := (thinInstanceDataStorage newMesh)
       \<lparr> matrixBuffer := Some \<lparr> updatable = False, uploaded = [] \<rparr>,
         matrixBufferSize := 0, matrixData := Some [] \<rparr>,
       boundingInfoRefreshes := 1 \<rparr>"

section \<open>WebXR hand tracking\<close>

text \<open>
  \<open>XRHandedness\<close> is \<open>"none" | "left" | "right"\<close>. An object indexed by \<open>left\<close> and
  \<open>right\<close> is a record of the two; \<open>Side\<close> names the index. A mesh is known by a
  number. The controller, \<open>WebXRInputSource\<close>, is read through \<open>uniqueId\<close>,
  \<open>inputSource.hand\<close> (present or not) and \<open>inputSource.handedness\<close>.
\<close>

datatype XRHandedness = Hnone | Hleft | Hright

datatype Side = SLeft | SRight

record 'a LeftRight =
  left :: 'a
  right :: 'a

definition pick :: "Side \<Rightarrow> 'a LeftRight \<Rightarrow> 'a" where
  "pick side lr = (case side of SLeft \<Rightarrow> left lr | SRight \<Rightarrow> right lr)"

definition put :: "Side \<Rightarrow> 'a \<Rightarrow> 'a LeftRight \<Rightarrow> 'a LeftRight" where
  "put side v lr = (case side of SLeft \<Rightarrow> lr\<lparr> left := v \<rparr> | SRight \<Rightarrow> lr\<lparr> right := v \<rparr>)"

definition sideOf :: "XRHandedness \<Rightarrow> Side option" where
  "sideOf h = (case h of Hnone \<Rightarrow> None | Hleft \<Rightarrow> Some SLeft | Hright \<Rightarrow> Some SRight)"

record XRInputSource =
  hand :: bool
  handedness :: XRHandedness

record WebXRInputSource =
  uniqueId :: string
  inputSource :: XRInputSource

text \<open>
  A \<open>WebXRHand\<close> keeps what its constructor received; \<open>handId\<close> tells one object from
  another. The registries read only the read-only field \<open>xrController\<close>, so a hand is a
  value; frames and hand meshes set later are not part of the model.
\<close>

record WebXRHand =
  xrController :: WebXRInputSource
  handJointMeshes :: "nat list"
  handMesh :: "nat option"
  rigMapping :: "nat option"
  handId :: nat

record HandResources =
  jointMeshes :: "nat list LeftRight option"
  handMeshes :: "nat LeftRight option"
  rigMappings :: "nat LeftRight option"

record HandTrackingOptions =
  customMeshes :: "nat LeftRight option"
  customRigMappings :: "nat LeftRight option"
  disableDefaultMeshes :: bool
  disposeOnSessionEnd :: bool

text \<open>
  What the observers of \<open>onHandAddedObservable\<close> and \<open>onHandRemovedObservable\<close> received,
  and the disposals of hands, in the order they happened.
\<close>

datatype HandEvent = HandAdded WebXRHand | HandRemoved WebXRHand | HandDisposed WebXRHand bool

datatype Handler = AttachHandHandler | DetachHandHandler

text \<open>
  The feature. \<open>_attachedHands\<close> is an object used as a dictionary: an association list
  in insertion order, which is the order of \<open>Object.keys\<close>. The two observer lists are
  what \<open>_addNewAttachObserver\<close> registered on \<open>onControllerAddedObservable\<close> and
  \<open>onControllerRemovedObservable\<close>.
\<close>

record WebXRHandTracking =
  attachedHands :: "(string \<times> WebXRHand) list"
  trackingHands :: "WebXRHand option LeftRight"
  handResources :: HandResources
  controllerAddedObservers :: "Handler list"
  controllerRemovedObservers :: "Handler list"
  handEvents :: "HandEvent list"
  nextHandId :: nat

definition newHandTracking :: WebXRHandTracking where
  "newHandTracking =
     \<lparr> attachedHands = [], trackingHands = \<lparr> left = None, right = None \<rparr>,
       handResources = \<lparr> jointMeshes = None, handMeshes = None, rigMappings = None \<rparr>,
       controllerAddedObservers = [], controllerRemovedObservers = [], handEvents = [],
       nextHandId = 0 \<rparr>"

definition getHandByControllerId :: "string \<Rightarrow> WebXRHandTracking \<Rightarrow> WebXRHand option" where
  "getHandByControllerId controllerId this = map_of (attachedHands this) controllerId"

definition getHandByHandedness :: "XRHandedness \<Rightarrow> WebXRHandTracking \<Rightarrow> WebXRHand option" where
  "getHandByHandedness h this =
     (if h = Hnone then None
      else (case sideOf h of None \<Rightarrow> None | Some side \<Rightarrow> pick side (trackingHands this)))"

text \<open>
  \<open>_GenerateTrackedJointMeshes\<close> makes one mesh for each of the 25 joints of each hand.
\<close>

definition GenerateTrackedJointMeshes :: "nat list LeftRight" where
  "GenerateTrackedJointMeshes = \<lparr> left = [0..<25], right = [25..<50] \<rparr>"

definition attachHand ::
  "HandTrackingOptions \<Rightarrow> WebXRInputSource \<Rightarrow> WebXRHandTracking \<Rightarrow> WebXRHandTracking" where
  "attachHand opts xrc this =
     (case jointMeshes (handResources this) of
        None \<Rightarrow> this
      | Some jm \<Rightarrow>
          if \<not> hand (inputSource xrc) then this
          else
            (case sideOf (handedness (inputSource xrc)) of
               None \<Rightarrow> this
             | Some side \<Rightarrow>
                 (let webxrHand =
                        \<lparr> xrController = xrc, handJointMeshes = pick side jm,
                          handMesh = map_option (pick side) (handMeshes (handResources this)),
                          rigMapping = map_option (pick side) (rigMappings (handResources this)),
                          handId = nextHandId this \<rparr>
                  in this\<lparr> attachedHands := AList.update (uniqueId xrc) webxrHand (attachedHands this),
                          trackingHands := put side (Some webxrHand) (trackingHands this),
                          handEvents := handEvents this @ [HandAdded webxrHand],
                          nextHandId := nextHandId this + 1 \<rparr>)))"

definition detachHandById :: "string \<Rightarrow> bool \<Rightarrow> WebXRHandTracking \<Rightarrow> WebXRHandTracking" where
  "detachHandById controllerId disposeMesh this =
     (case getHandByControllerId controllerId this of
        None \<Rightarrow> this
      | Some h \<Rightarrow>
          (let side = (if handedness (inputSource (xrController h)) = Hleft then SLeft else SRight);
               this1 =
                 (case pick side (trackingHands this) of
                    None \<Rightarrow> this
                  | Some t \<Rightarrow>
                      if uniqueId (xrController t) = controllerId
                      then this\<lparr> trackingHands := put side None (trackingHands this) \<rparr>
                      else this);
               this2 = this1\<lparr> handEvents := handEvents this1 @ [HandRemoved h] \<rparr>;
               this3 = this2\<lparr> handEvents := handEvents this2 @ [HandDisposed h disposeMesh] \<rparr>
           in this3\<lparr> attachedHands := AList.delete controllerId (attachedHands this3) \<rparr>))"

definition detachHand :: "WebXRInputSource \<Rightarrow> WebXRHandTracking \<Rightarrow> WebXRHandTracking" where
  "detachHand xrc this = detachHandById (uniqueId xrc) False this"

text \<open>
  \<open>attach\<close> and \<open>detach\<close>. \<open>WebXRAbstractFeature\<close> is not among the source files:
  the result of \<open>super.attach()\<close> and \<open>super.detach()\<close> is the parameter \<open>superOk\<close>, and
  \<open>super.detach()\<close> removes the observers that \<open>_addNewAttachObserver\<close> added.
  \<open>controllers\<close> is \<open>options.xrInput.controllers\<close> at the time of the call. Loading the
  default hand meshes is asynchronous and touches only meshes.
\<close>

definition attach ::
  "bool \<Rightarrow> HandTrackingOptions \<Rightarrow> WebXRInputSource list \<Rightarrow> WebXRHandTracking
     \<Rightarrow> bool \<times> WebXRHandTracking" where
  "attach superOk opts controllers this =
     (if \<not> superOk then (False, this)
      else
        (let res = handResources this;
             res1 = (if jointMeshes res = None
                     then res\<lparr> jointMeshes := Some GenerateTrackedJointMeshes \<rparr> else res);
             res2 = res1\<lparr> handMeshes := customMeshes opts,
                          rigMappings := customRigMappings opts \<rparr>;
             this1 = this\<lparr> handResources := res2 \<rparr>;
             this2 = fold (attachHand opts) controllers this1;
             this3 = this2\<lparr> controllerAddedObservers :=
                              controllerAddedObservers this2 @ [AttachHandHandler] \<rparr>;
             this4 = this3\<lparr> controllerRemovedObservers :=
                              controllerRemovedObservers this3 @ [DetachHandHandler] \<rparr>
         in (True, this4)))"

definition detach ::
  "bool \<Rightarrow> HandTrackingOptions \<Rightarrow> WebXRHandTracking \<Rightarrow> bool \<times> WebXRHandTracking" where
  "detach superOk opts this =
     (if \<not> superOk then (False, this)
      else
        (let this0 = this\<lparr> controllerAddedObservers := [], controllerRemovedObservers := [] \<rparr>;
             keys = map fst (attachedHands this0);
             this1 = fold (\<lambda>uid t. detachHandById uid (disposeOnSessionEnd opts) t) keys this0;
             this2 = (if disposeOnSessionEnd opts
                      then this1\<lparr> handResources := (handResources this1)
                             \<lparr> jointMeshes := None, handMeshes := None \<rparr> \<rparr>
                      else this1)
         in (True, this2)))"

text \<open>Notifying the observers of a controller that was added or removed.\<close>

definition runHandler ::
  "HandTrackingOptions \<Rightarrow> WebXRInputSource \<Rightarrow> Handler \<Rightarrow> WebXRHandTracking \<Rightarrow> WebXRHandTracking" where
  "runHandler opts xrc h this =
     (case h of AttachHandHandler \<Rightarrow> attachHand opts xrc this
              | DetachHandHandler \<Rightarrow> detachHand xrc this)"

definition onControllerAdded ::
  "HandTrackingOptions \<Rightarrow> WebXRInputSource \<Rightarrow> WebXRHandTracking \<Rightarrow> WebXRHandTracking" where
  "onControllerAdded opts xrc this = fold (runHandler opts xrc) (controllerAddedObservers this) this"

definition onControllerRemoved ::
  "HandTrackingOptions \<Rightarrow> WebXRInputSource \<Rightarrow> WebXRHandTracking \<Rightarrow> WebXRHandTracking" where
  "onControllerRemoved opts xrc this =
     fold (runHandler opts xrc) (controllerRemovedObservers this) this"

text \<open>
  A controller counts for hand tracking when its input source has a hand and its
  handedness is left or right. \<open>handAddedFor c s s'\<close> says what one creation of a hand for
  the controller \<open>c\<close> does between the states \<open>s\<close> and \<open>s'\<close>: one new hand object for
  \<open>c\<close>, found in \<open>_attachedHands\<close> under the controller's \<open>uniqueId\<close> and in
  \<open>_trackingHands\<close> under its handedness, and one notification of \<open>onHandAddedObservable\<close>
  with it.
\<close>

definition eligible :: "WebXRInputSource \<Rightarrow> bool" where
  "eligible c =
     (hand (inputSource c)
      \<and> (handedness (inputSource c) = Hleft \<or> handedness (inputSource c) = Hright))"

definition handAddedFor ::
  "WebXRInputSource \<Rightarrow> WebXRHandTracking \<Rightarrow> WebXRHandTracking \<Rightarrow> bool" where
  "handAddedFor c s s' =
     (case getHandByControllerId (uniqueId c) s' of
        None \<Rightarrow> False
      | Some h \<Rightarrow>
          xrController h = c \<and> handId h = nextHandId s \<and> nextHandId s' = nextHandId s + 1
          \<and> getHandByHandedness (handedness (inputSource c)) s' = Some h
          \<and> handEvents s' = handEvents s @ [HandAdded h])"

text \<open>
  The states the feature can reach. A \<open>WebXRInputSource\<close> gets its \<open>uniqueId\<close> from a
  counter when it is made, so an id belongs to one controller: \<open>W\<close> gives the input source
  of the controller with a given id. A step attaches or detaches the feature, or notifies
  the observers of a controller added or removed; the options may differ from step to step.
\<close>

definition ctrl :: "(string \<Rightarrow> XRInputSource) \<Rightarrow> string \<Rightarrow> WebXRInputSource" where
  "ctrl W uid = \<lparr> uniqueId = uid, inputSource = W uid \<rparr>"

inductive reachable :: "(string \<Rightarrow> XRInputSource) \<Rightarrow> WebXRHandTracking \<Rightarrow> bool"
  for W :: "string \<Rightarrow> XRInputSource" where
  start: "reachable W newHandTracking"
| feature_attach:
    "reachable W s \<Longrightarrow> reachable W (snd (attach ok opts (map (ctrl W) uids) s))"
| feature_detach:
    "reachable W s \<Longrightarrow> reachable W (snd (detach ok opts s))"
| controller_added:
    "reachable W s \<Longrightarrow> reachable W (onControllerAdded opts (ctrl W uid) s)"
| controller_removed:
    "reachable W s \<Longrightarrow> reachable W (onControllerRemoved opts (ctrl W uid) s)"

text \<open>Concrete inputs, used to run the definitions.\<close>

definition plainOptions :: HandTrackingOptions where
  "plainOptions = \<lparr> customMeshes = None, customRigMappings = None,
                    disableDefaultMeshes = True, disposeOnSessionEnd = False \<rparr>"

definition leftHandController :: WebXRInputSource where
  "leftHandController = \<lparr> uniqueId = ''controller-0-tracked-pointer-left'',
                          inputSource = \<lparr> hand = True, handedness = Hleft \<rparr> \<rparr>"

definition gamepadController :: WebXRInputSource where
  "gamepadController = \<lparr> uniqueId = ''controller-1-tracked-pointer-right'',
                         inputSource = \<lparr> hand = False, handedness = Hright \<rparr> \<rparr>"

definition allLeftHands :: "string \<Rightarrow> XRInputSource" where
  "allLeftHands uid = \<lparr> hand = True, handedness = Hleft \<rparr>"

definition firstHand :: WebXRHand where
  "firstHand = \<lparr> xrController = ctrl allLeftHands ''hand-0'',
                 handJointMeshes = left GenerateTrackedJointMeshes,
                 handMesh = None, rigMapping = None, handId = 0 \<rparr>"

definition oneHandState :: WebXRHandTracking where
  "oneHandState =
     onControllerAdded plainOptions (ctrl allLeftHands ''hand-0'')
       (snd (attach True plainOptions (map (ctrl allLeftHands) []) newHandTracking))"

text \<open>
  The invariant behind the consistency of the two registries: a hand stored under an id
  belongs to the controller with that id, and a tracked hand is stored on the side of its
  controller's handedness and under its controller's id.
\<close>

definition registriesConsistent ::
  "(string \<Rightarrow> XRInputSource) \<Rightarrow> WebXRHandTracking \<Rightarrow> bool" where
  "registriesConsistent W s =
     ((\<forall>uid h. map_of (attachedHands s) uid = Some h \<longrightarrow> xrController h = ctrl W uid)
      \<and> (\<forall>side t. pick side (trackingHands s) = Some t \<longrightarrow>
            (\<exists>uid. xrController t = ctrl W uid
                 \<and> sideOf (handedness (W uid)) = Some side
                 \<and> map_of (attachedHands s) uid \<noteq> None)))"

section \<open>Properties of the pointer-drag behaviour\<close>

subsection \<open>Evaluating the arithmetic\<close>

lemma halvings_numeral [simp]:
  "halvings (numeral k) x = (if x < 2 then 0 else Suc (halvings (pred_numeral k) (x / 2)))"
  by (simp add: numeral_eq_Suc)

lemma doublings_numeral [simp]:
  "doublings (numeral k) x = (if 1 \<le> x then 0 else Suc (doublings (pred_numeral k) (x * 2)))"
  by (simp add: numeral_eq_Suc)

lemmas fl53_eval = fl53_def exponent_def pow2_def roundHalfEven_def Let_def

lemma exact_simps [simp]:
  "fl exact x = x" "Math_PI exact = pi"
  "Math_acos exact v = (if - 1 \<le> v \<and> v \<le> 1 then Some (arccos v) else None)"
  by (simp_all add: exact_def)

lemma doubles_simps [simp]:
  "fl doubles = fl53" "Math_PI doubles = 884279719003555 / 2 ^ 48"
  "Math_acos doubles v = (if - 1 \<le> v \<and> v \<le> 1 then Some (fl53 (arccos v)) else None)"
  by (simp_all add: doubles_def)

lemma unrounded:
  assumes "fl A = (\<lambda>x. x)"
  shows "Dot A a b = vx a * vx b + vy a * vy b + vz a * vz b"
    and "subtract A a b = Vector3 (vx a - vx b) (vy a - vy b) (vz a - vz b)"
    and "add A a b = Vector3 (vx a + vx b) (vy a + vy b) (vz a + vz b)"
    and "scale A a s = Vector3 (vx a * s) (vy a * s) (vz a * s)"
    and "length_v A a = sqrt (vx a * vx a + vy a * vy a + vz a * vz a)"
  by (simp_all add: Dot_def subtract_def add_def scale_def length_v_def assms)


subsection \<open>Frame lemmas\<close>

lemma pick_frame:
  assumes "pickWithRayOnDragPlane A Epsilon ray this = (res, this')"
  shows "options this' = options this" "lastDragPosition this' = lastDragPosition this"
    "targetPosition this' = targetPosition this" "onDragObservable this' = onDragObservable this"
    "useObjectOrientationForDragging this' = useObjectOrientationForDragging this"
    "worldRotation this' = worldRotation this" "updateDragPlane this' = updateDragPlane this"
    "currentDraggingPointerId this' = currentDraggingPointerId this"
    "dragPlane this' = dragPlane this" "moving this' = moving this"
  using assms
  by (auto simp: pickWithRayOnDragPlane_def Let_def split: option.splits if_splits)

lemma update_frame:
  shows "options (updateDragPlanePosition A ray p this) = options this"
    "lastDragPosition (updateDragPlanePosition A ray p this) = lastDragPosition this"
    "targetPosition (updateDragPlanePosition A ray p this) = targetPosition this"
    "onDragObservable (updateDragPlanePosition A ray p this) = onDragObservable this"
    "useObjectOrientationForDragging (updateDragPlanePosition A ray p this)
       = useObjectOrientationForDragging this"
    "worldRotation (updateDragPlanePosition A ray p this) = worldRotation this"
    "currentDraggingPointerId (updateDragPlanePosition A ray p this)
       = currentDraggingPointerId this"
  by (simp_all add: updateDragPlanePosition_def planeLookAt_def planeSetPosition_def Let_def
      split: option.splits)

lemma normalize_collinear:
  assumes "fl A = (\<lambda>x. x)"
  shows "\<exists>k. normalize A a = scale A a k"
proof (cases "length_v A a = 0 \<or> length_v A a = 1")
  case True
  have "a = scale A a 1" by (cases a) (simp add: unrounded [OF assms])
  with True show ?thesis by (auto simp: normalize_def Let_def)
next
  case False
  then show ?thesis by (auto simp: normalize_def Let_def)
qed

lemma scale_scale:
  assumes "fl A = (\<lambda>x. x)"
  shows "scale A (scale A a k) l = scale A a (k * l)"
  by (simp add: unrounded [OF assms] mult.assoc)

lemma plane_equation:
  assumes "fl A = (\<lambda>x. x)"
  shows "Dot A (subtract A (add A orig (scale A d t)) p) n
           = t * Dot A d n - Dot A (subtract A p orig) n"
  by (simp add: unrounded [OF assms] algebra_simps)



subsection \<open>The constructor\<close>

text \<open>
  C8. The constructor throws exactly when the options name both a drag axis and a drag
  plane normal. In every other case, also without an options object, it returns the
  behaviour, whose options are the ones given, or the empty object.
\<close>

theorem constructor_throws_iff_both_modes:
  "((\<exists>e. constructor opts = Inl e) \<longleftrightarrow>
      (\<exists>os. opts = Some os \<and> dragAxis os \<noteq> None \<and> dragPlaneNormal os \<noteq> None))
   \<and> (\<not> (\<exists>os. opts = Some os \<and> dragAxis os \<noteq> None \<and> dragPlaneNormal os \<noteq> None) \<longrightarrow>
        (\<exists>this. constructor opts = Inr this \<and>
            options this = (case opts of Some os \<Rightarrow> os | None \<Rightarrow> emptyOptions)))"
  by (cases opts)
     (auto simp: constructor_def optionCount_def newBehavior_def emptyOptions_def Let_def)

theorem constructor_throws_iff_both_modes_witness:
  "(\<exists>this. constructor (Some \<lparr> dragAxis = Some (Vector3 2 0 0), dragPlaneNormal = None \<rparr>)
        = Inr this
      \<and> options this = \<lparr> dragAxis = Some (Vector3 2 0 0), dragPlaneNormal = None \<rparr>)
   \<and> (\<exists>e. constructor (Some \<lparr> dragAxis = Some (Vector3 2 0 0),
                               dragPlaneNormal = Some (Vector3 0 1 0) \<rparr>) = Inl e)
   \<and> (\<exists>this. constructor None = Inr this \<and> options this = emptyOptions)"
  using constructor_throws_iff_both_modes
          [of "Some \<lparr> dragAxis = Some (Vector3 2 0 0), dragPlaneNormal = None \<rparr>"]
        constructor_throws_iff_both_modes
          [of "Some \<lparr> dragAxis = Some (Vector3 2 0 0), dragPlaneNormal = Some (Vector3 0 1 0) \<rparr>"]
        constructor_throws_iff_both_modes [of None]
  by simp

subsection \<open>The plane pick\<close>

lemma example_values:
  "maxDragAngle freeBehavior = 0"
  "forward (dragPlane freeBehavior) = Vector3 0 0 1"
  "position (dragPlane freeBehavior) = Vector3 0 0 0"
  "useAlternatePickedPointAboveMaxDragAngle freeBehavior = False"
  "origin frontRay = Vector3 2 0 (- 5)" "direction frontRay = Vector3 0 0 1"
  "origin backRay = Vector3 2 0 5" "direction backRay = Vector3 0 0 1"
  "origin steepRay = Vector3 0 0 (- 1)" "direction steepRay = Vector3 0 0 49"
  "origin slantRay = Vector3 0 0 (- 5)" "direction slantRay = Vector3 1 0 1"
  "origin unitSlantRay = Vector3 0 0 (- 1)"
  "direction unitSlantRay = Vector3 (sqrt 2 / 2) 0 (sqrt 2 / 2)"
  by (simp_all add: freeBehavior_def frontRay_def backRay_def steepRay_def slantRay_def
        unitSlantRay_def newBehavior_def Zero_def)

text \<open>The three outcomes of the intersection branch, which is taken when no angle check applies.\<close>

lemma pick_hit:
  assumes "\<not> (maxDragAngle this > 0
              \<and> gt_nan (foldedAngle A (forward (dragPlane this)) (direction r))
                   (maxDragAngle this))"
    and "\<bar>Dot A (direction r) (forward (dragPlane this))\<bar> \<ge> Epsilon"
    and "t = fl A (Dot A (subtract A (position (dragPlane this)) (origin r))
                          (forward (dragPlane this))
                     / Dot A (direction r) (forward (dragPlane this)))"
    and "0 \<le> t"
  shows "pickWithRayOnDragPlane A Epsilon (Some r) this
           = (Some (add A (origin r) (scale A (direction r) t)),
              this\<lparr> TmpVectors0 := scale A (direction r) t \<rparr>)"
  using assms by (auto simp: pickWithRayOnDragPlane_def Let_def)




lemma steep_values:
  "Dot doubles (direction steepRay) (forward (dragPlane freeBehavior)) = 49"
  "Dot doubles (subtract doubles (position (dragPlane freeBehavior)) (origin steepRay))
       (forward (dragPlane freeBehavior)) = 1"
  "fl53 (1 / 49) = 5882252574524729 / 288230376151711744"
  "fl53 (1 / 1000) = 1152921504606847 / 1152921504606846976"
  "add doubles (origin steepRay)
       (scale doubles (direction steepRay) (5882252574524729 / 288230376151711744))
     = Vector3 0 0 (- (1 / 9007199254740992))"
  "Dot doubles (subtract doubles (Vector3 0 0 (- (1 / 9007199254740992)))
                    (position (dragPlane freeBehavior)))
       (forward (dragPlane freeBehavior)) = - (1 / 9007199254740992)"
  by (simp_all add: example_values Dot_def subtract_def add_def scale_def fl53_eval)

text \<open>
  C1, as amended. With \<open>maxDragAngle = 0\<close>, for a ray with origin \<open>o\<close> and direction
  \<open>d\<close> and a drag plane with position \<open>p\<close> and forward normal \<open>n\<close> such that
  \<open>\<bar>d \<cdot> n\<bar> \<ge> Epsilon\<close> and \<open>t = ((p - o) \<cdot> n) / (d \<cdot> n) \<ge> 0\<close>, every operation rounded
  as the arithmetic has it, \<open>_pickWithRayOnDragPlane\<close> returns the point \<open>o + t * d\<close> as the
  arithmetic computes it. Where nothing is rounded, that point satisfies the plane
  equation \<open>(result - p) \<cdot> n = 0\<close>. The normal need not be of unit length.
\<close>

theorem pick_is_ray_plane_intersection:
  assumes "0 < Epsilon" and "maxDragAngle this = 0"
    and "\<bar>Dot A (direction r) (forward (dragPlane this))\<bar> \<ge> Epsilon"
    and "t = fl A (Dot A (subtract A (position (dragPlane this)) (origin r))
                          (forward (dragPlane this))
                     / Dot A (direction r) (forward (dragPlane this)))"
    and "0 \<le> t"
  shows "fst (pickWithRayOnDragPlane A Epsilon (Some r) this)
           = Some (add A (origin r) (scale A (direction r) t))
     \<and> (fl A = (\<lambda>x. x) \<longrightarrow>
          Dot A (subtract A (add A (origin r) (scale A (direction r) t))
                   (position (dragPlane this)))
                (forward (dragPlane this)) = 0)"
proof (intro conjI impI)
  have "\<not> (maxDragAngle this > 0
              \<and> gt_nan (foldedAngle A (forward (dragPlane this)) (direction r))
                   (maxDragAngle this))"
    using assms(2) by simp
  from pick_hit [OF this assms(3,4,5)]
  show "fst (pickWithRayOnDragPlane A Epsilon (Some r) this)
          = Some (add A (origin r) (scale A (direction r) t))"
    by simp
next
  assume ex: "fl A = (\<lambda>x. x)"
  have nz: "Dot A (direction r) (forward (dragPlane this)) \<noteq> 0"
    using assms(1,3) by auto
  have "t = Dot A (subtract A (position (dragPlane this)) (origin r)) (forward (dragPlane this))
             / Dot A (direction r) (forward (dragPlane this))"
    using assms(4) by (simp add: ex)
  then have "t * Dot A (direction r) (forward (dragPlane this))
          = Dot A (subtract A (position (dragPlane this)) (origin r)) (forward (dragPlane this))"
    using nz by simp
  then show "Dot A (subtract A (add A (origin r) (scale A (direction r) t))
                      (position (dragPlane this)))
                   (forward (dragPlane this)) = 0"
    by (simp add: plane_equation [OF ex])
qed

text \<open>
  C1 as stated fails in doubles. For the plane through the origin with normal
  \<open>(0, 0, 1)\<close> and the ray from \<open>(0, 0, -1)\<close> with direction \<open>(0, 0, 49)\<close>, the quotient
  \<open>1 / 49\<close> is rounded down, its product with \<open>49\<close> is the double below one, and the
  point returned is \<open>(0, 0, -1 / 2 ^ 53)\<close>: the plane equation gives \<open>-1 / 2 ^ 53\<close>, not
  zero. \<open>Epsilon\<close> is the double nearest to \<open>0.001\<close>.
\<close>

theorem pick_plane_equation_fails_in_doubles:
  "maxDragAngle freeBehavior = 0
   \<and> \<bar>Dot doubles (direction steepRay) (forward (dragPlane freeBehavior))\<bar> \<ge> fl53 (1 / 1000)
   \<and> 0 \<le> fl doubles
           (Dot doubles (subtract doubles (position (dragPlane freeBehavior)) (origin steepRay))
                      (forward (dragPlane freeBehavior))
                 / Dot doubles (direction steepRay) (forward (dragPlane freeBehavior)))
   \<and> fst (pickWithRayOnDragPlane doubles (fl53 (1 / 1000)) (Some steepRay) freeBehavior)
       = Some (Vector3 0 0 (- (1 / 2 ^ 53)))
   \<and> Dot doubles (subtract doubles (Vector3 0 0 (- (1 / 2 ^ 53)))
                    (position (dragPlane freeBehavior)))
         (forward (dragPlane freeBehavior)) = - (1 / 2 ^ 53)"
proof -
  let ?t = "fl doubles
           (Dot doubles (subtract doubles (position (dragPlane freeBehavior)) (origin steepRay))
                      (forward (dragPlane freeBehavior))
                 / Dot doubles (direction steepRay) (forward (dragPlane freeBehavior)))"
  have t: "?t = 5882252574524729 / 288230376151711744"
    by (simp add: steep_values)
  have hyp1: "\<bar>Dot doubles (direction steepRay) (forward (dragPlane freeBehavior))\<bar>
                \<ge> fl53 (1 / 1000)"
    by (simp add: steep_values)
  have hyp2: "0 \<le> ?t" unfolding t by simp
  have free: "\<not> (maxDragAngle freeBehavior > 0
              \<and> gt_nan (foldedAngle doubles (forward (dragPlane freeBehavior))
                           (direction steepRay))
                   (maxDragAngle freeBehavior))"
    by (simp add: example_values)
  have "fst (pickWithRayOnDragPlane doubles (fl53 (1 / 1000)) (Some steepRay) freeBehavior)
          = Some (add doubles (origin steepRay) (scale doubles (direction steepRay) ?t))"
    by (simp only: pick_hit [OF free hyp1 refl hyp2] fst_conv)
  from this [unfolded t steep_values(5)] have picked:
    "fst (pickWithRayOnDragPlane doubles (fl53 (1 / 1000)) (Some steepRay) freeBehavior)
       = Some (Vector3 0 0 (- (1 / 2 ^ 53)))"
    by simp
  have off: "Dot doubles (subtract doubles (Vector3 0 0 (- (1 / 2 ^ 53)))
                    (position (dragPlane freeBehavior)))
         (forward (dragPlane freeBehavior)) = - (1 / 2 ^ 53)"
    using steep_values(6) by simp
  from example_values(1) hyp1 hyp2 picked off show ?thesis by blast
qed

theorem pick_is_ray_plane_intersection_witness:
  "0 < (1 / 1000 :: real) \<and> maxDragAngle freeBehavior = 0
   \<and> \<bar>Dot exact (direction frontRay) (forward (dragPlane freeBehavior))\<bar> \<ge> 1 / 1000
   \<and> (5 :: real) = fl exact (Dot exact (subtract exact (position (dragPlane freeBehavior))
                                           (origin frontRay))
                               (forward (dragPlane freeBehavior))
                     / Dot exact (direction frontRay) (forward (dragPlane freeBehavior)))
   \<and> fl exact = (\<lambda>x. x)
   \<and> fst (pickWithRayOnDragPlane exact (1 / 1000) (Some frontRay) freeBehavior)
       = Some (Vector3 2 0 0)
   \<and> add exact (origin frontRay) (scale exact (direction frontRay) 5) = Vector3 2 0 0
   \<and> Dot exact (subtract exact (Vector3 2 0 0) (position (dragPlane freeBehavior)))
         (forward (dragPlane freeBehavior)) = 0"
proof -
  have e: "0 < (1 / 1000 :: real)" by simp
  have h3: "\<bar>Dot exact (direction frontRay) (forward (dragPlane freeBehavior))\<bar> \<ge> 1 / 1000"
    by (simp add: example_values Dot_def)
  have h4: "(5 :: real) = fl exact (Dot exact (subtract exact (position (dragPlane freeBehavior))
                                           (origin frontRay))
                               (forward (dragPlane freeBehavior))
                     / Dot exact (direction frontRay) (forward (dragPlane freeBehavior)))"
    by (simp add: example_values Dot_def subtract_def)
  have h5: "0 \<le> (5 :: real)" by simp
  have ex: "fl exact = (\<lambda>x. x)" by (simp add: exact_def)
  have pt: "add exact (origin frontRay) (scale exact (direction frontRay) 5) = Vector3 2 0 0"
    by (simp add: example_values add_def scale_def)
  note inst = pick_is_ray_plane_intersection [OF e example_values(1) h3 h4 h5]
  have a: "fst (pickWithRayOnDragPlane exact (1 / 1000) (Some frontRay) freeBehavior)
       = Some (Vector3 2 0 0)"
    using inst [THEN conjunct1] by (simp only: pt)
  have b: "Dot exact (subtract exact (Vector3 2 0 0) (position (dragPlane freeBehavior)))
         (forward (dragPlane freeBehavior)) = 0"
    using inst [THEN conjunct2, rule_format, OF ex] by (simp only: pt)
  from e example_values(1) h3 h4 ex a pt b show ?thesis by blast
qed

subsection \<open>Rays that are refused\<close>


lemma arccos_half_sqrt2: "arccos (sqrt 2 / 2) = pi / 4"
proof -
  have "arccos (cos (pi / 4)) = pi / 4"
    by (rule arccos_cos) simp_all
  then show ?thesis by (simp only: cos_45)
qed


lemma unit_slant:
  "Dot exact (Vector3 0 0 1) (Vector3 0 0 1) = 1"
  "Dot exact (Vector3 (sqrt 2 / 2) 0 (sqrt 2 / 2)) (Vector3 (sqrt 2 / 2) 0 (sqrt 2 / 2)) = 1"
  "Dot exact (Vector3 0 0 1) (Vector3 (sqrt 2 / 2) 0 (sqrt 2 / 2)) = sqrt 2 / 2"
  by (simp_all add: Dot_def)

lemma unit_slant_angle:
  "foldedAngleBetween (Vector3 0 0 1) (Vector3 (sqrt 2 / 2) 0 (sqrt 2 / 2)) = pi / 4"
proof -
  have l: "length_v exact (Vector3 0 0 1) = 1"
    "length_v exact (Vector3 (sqrt 2 / 2) 0 (sqrt 2 / 2)) = 1"
    by (simp_all add: length_v_def)
  have ab: "angleBetween (Vector3 0 0 1) (Vector3 (sqrt 2 / 2) 0 (sqrt 2 / 2)) = pi / 4"
    by (simp add: angleBetween_def l unit_slant arccos_half_sqrt2)
  show ?thesis by (simp add: foldedAngleBetween_def ab Let_def)
qed







subsection \<open>Dragging along an axis\<close>

lemma moveDrag_axis_fields:
  assumes ax: "dragAxis (options this) = Some axis"
    and pick: "pickWithRayOnDragPlane A Epsilon (Some ray) (this\<lparr> moving := True \<rparr>)
                 = (Some pickedPoint, this')"
    and w: "w = normalize A (if useObjectOrientationForDragging this
                              then worldRotation this axis else axis)"
    and len: "len = Dot A (subtract A pickedPoint (lastDragPosition this)) w"
  shows "worldDragAxis (moveDrag A Epsilon ray this) = w"
    and "dragDelta (moveDrag A Epsilon ray this) = scale A w len"
    and "\<exists>ev. onDragObservable (moveDrag A Epsilon ray this) = onDragObservable this @ [ev]
              \<and> dragDistance ev = len \<and> delta ev = scale A w len
              \<and> dragPlanePoint ev = pickedPoint"
    and "targetPosition (moveDrag A Epsilon ray this)
           = add A (targetPosition this) (scale A w len)"
    and "lastDragPosition (moveDrag A Epsilon ray this) = pickedPoint"
proof -
  note fr = pick_frame [OF pick]
  define this3 where
    "this3 = (if updateDragPlane this' then updateDragPlanePosition A ray pickedPoint this'
              else this')"
  have f3: "options this3 = options this" "lastDragPosition this3 = lastDragPosition this"
    "targetPosition this3 = targetPosition this" "onDragObservable this3 = onDragObservable this"
    "useObjectOrientationForDragging this3 = useObjectOrientationForDragging this"
    "worldRotation this3 = worldRotation this"
    using fr by (auto simp: this3_def update_frame)
  have res: "moveDrag A Epsilon ray this =
     (notifyDrag len pickedPoint
        (this3\<lparr> tmpVector := subtract A pickedPoint (lastDragPosition this), worldDragAxis := w,
                dragDelta := scale A w len,
                targetPosition := add A (targetPosition this) (scale A w len) \<rparr>))
       \<lparr> lastDragPosition := pickedPoint \<rparr>"
    using pick ax f3 by (simp add: moveDrag_def Let_def this3_def[symmetric] w len)
  show "worldDragAxis (moveDrag A Epsilon ray this) = w"
    "dragDelta (moveDrag A Epsilon ray this) = scale A w len"
    "targetPosition (moveDrag A Epsilon ray this)
           = add A (targetPosition this) (scale A w len)"
    "lastDragPosition (moveDrag A Epsilon ray this) = pickedPoint"
    by (simp_all add: res notifyDrag_def)
  show "\<exists>ev. onDragObservable (moveDrag A Epsilon ray this) = onDragObservable this @ [ev]
              \<and> dragDistance ev = len \<and> delta ev = scale A w len
              \<and> dragPlanePoint ev = pickedPoint"
    by (simp add: res notifyDrag_def f3)
qed

text \<open>A multiple of a vector has a zero cross product with it.\<close>

lemma collinear_cross: "Cross exact (scale exact a k) a = Zero"
  by (simp add: Cross_def scale_def Zero_def)

lemma skew_values:
  "dragAxis (options skewBehavior) = Some (Vector3 1 (5 / 2 ^ 30) 0)"
  "lastDragPosition skewBehavior = Vector3 0 0 0"
  "useObjectOrientationForDragging skewBehavior = False"
  "maxDragAngle skewBehavior = 0"
  "forward (dragPlane skewBehavior) = Vector3 0 0 1"
  "position (dragPlane skewBehavior) = Vector3 0 0 0"
  "origin skewRay = Vector3 (1 + 1 / 2 ^ 52) 0 (- 1)" "direction skewRay = Vector3 0 0 1"
  by (simp_all add: skewBehavior_def skewRay_def newBehavior_def Zero_def)

lemma skew_arith:
  "normalize doubles (Vector3 1 (5 / 2 ^ 30) 0) = Vector3 1 (5 / 2 ^ 30) 0"
  "Dot doubles (subtract doubles (Vector3 (1 + 1 / 2 ^ 52) 0 0) (Vector3 0 0 0))
       (Vector3 1 (5 / 2 ^ 30) 0) = 1 + 1 / 2 ^ 52"
  "scale doubles (Vector3 1 (5 / 2 ^ 30) 0) (1 + 1 / 2 ^ 52)
     = Vector3 (1 + 1 / 2 ^ 52) ((5 + 4 / 2 ^ 52) / 2 ^ 30) 0"
  "add doubles (Vector3 (1 + 1 / 2 ^ 52) 0 (- 1)) (scale doubles (Vector3 0 0 1) 1)
     = Vector3 (1 + 1 / 2 ^ 52) 0 0"
  "Cross exact (Vector3 (1 + 1 / 2 ^ 52) ((5 + 4 / 2 ^ 52) / 2 ^ 30) 0)
       (Vector3 1 (5 / 2 ^ 30) 0) = Vector3 0 0 (1 / 2 ^ 82)"
  by (simp_all add: normalize_def length_v_def Dot_def subtract_def scale_def add_def Cross_def
        fl53_eval)

lemma turned_values:
  "dragAxis (options turnedBehavior) = Some (Vector3 2 0 0)"
  "lastDragPosition turnedBehavior = Vector3 0 0 0"
  "targetPosition turnedBehavior = Vector3 0 0 0"
  "useObjectOrientationForDragging turnedBehavior = True"
  "worldRotation turnedBehavior (Vector3 2 0 0) = Vector3 0 2 0"
  "maxDragAngle turnedBehavior = 0"
  "forward (dragPlane turnedBehavior) = Vector3 0 0 1"
  "position (dragPlane turnedBehavior) = Vector3 0 0 0"
  "origin highRay = Vector3 2 3 (- 5)" "direction highRay = Vector3 0 0 1"
  by (simp_all add: turnedBehavior_def highRay_def newBehavior_def Zero_def)

lemma turned_arith:
  "normalize exact (Vector3 0 2 0) = Vector3 0 1 0"
  "Dot exact (subtract exact (Vector3 2 3 0) (Vector3 0 0 0)) (Vector3 0 1 0) = 3"
  "scale exact (Vector3 0 1 0) 3 = Vector3 0 3 0"
  "add exact (Vector3 0 0 0) (Vector3 0 3 0) = Vector3 0 3 0"
  "add exact (Vector3 2 3 (- 5)) (scale exact (Vector3 0 0 1) 5) = Vector3 2 3 0"
  by (simp_all add: normalize_def length_v_def Dot_def subtract_def scale_def add_def)

text \<open>
  C2, as amended. When \<open>options.dragAxis\<close> is set and the pick on the drag plane succeeds,
  \<open>_moveDrag\<close> projects the move onto the axis. The world drag axis is the drag axis
  turned by the rotation of the attached node when \<open>useObjectOrientationForDragging\<close> is
  set, and the drag axis itself otherwise. With \<open>w\<close> the normalised world drag axis and
  \<open>dragLength = (pickedPoint - lastDragPosition) \<cdot> w\<close>, every operation rounded as the
  arithmetic has it, the drag delta is \<open>w\<close> scaled by \<open>dragLength\<close>; the observers of
  \<open>onDragObservable\<close> receive one event, with that \<open>dragLength\<close> as \<open>dragDistance\<close> and
  that delta; \<open>_targetPosition\<close> becomes its sum with the delta; and \<open>lastDragPosition\<close>
  becomes the picked point. Where nothing is rounded, the delta is a multiple of the world
  drag axis.
\<close>

theorem moveDrag_axis_projection:
  assumes ax: "dragAxis (options this) = Some axis"
    and pick: "pickWithRayOnDragPlane A Epsilon (Some ray) (this\<lparr> moving := True \<rparr>)
                 = (Some pickedPoint, this')"
  shows "let worldAxis = (if useObjectOrientationForDragging this
                          then worldRotation this axis else axis);
             w = normalize A worldAxis;
             dragLength = Dot A (subtract A pickedPoint (lastDragPosition this)) w;
             result = moveDrag A Epsilon ray this
         in worldDragAxis result = w
          \<and> dragDelta result = scale A w dragLength
          \<and> (fl A = (\<lambda>x. x) \<longrightarrow> (\<exists>k. dragDelta result = scale A worldAxis k))
          \<and> (\<exists>ev. onDragObservable result = onDragObservable this @ [ev]
                \<and> dragDistance ev = dragLength \<and> delta ev = scale A w dragLength
                \<and> dragPlanePoint ev = pickedPoint)
          \<and> targetPosition result = add A (targetPosition this) (scale A w dragLength)
          \<and> lastDragPosition result = pickedPoint"
proof -
  define worldAxis where
    "worldAxis = (if useObjectOrientationForDragging this then worldRotation this axis else axis)"
  define w where "w = normalize A worldAxis"
  define len where "len = Dot A (subtract A pickedPoint (lastDragPosition this)) w"
  note f = moveDrag_axis_fields [OF ax pick w_def [unfolded worldAxis_def] len_def]
  have col: "fl A = (\<lambda>x. x) \<longrightarrow>
               (\<exists>k. dragDelta (moveDrag A Epsilon ray this) = scale A worldAxis k)"
  proof
    assume ex: "fl A = (\<lambda>x. x)"
    obtain k where k: "w = scale A worldAxis k"
      unfolding w_def using normalize_collinear [OF ex] by blast
    have "scale A w len = scale A worldAxis (k * len)"
      by (simp add: k scale_scale [OF ex])
    with f(2) show "\<exists>k. dragDelta (moveDrag A Epsilon ray this) = scale A worldAxis k"
      by auto
  qed
  from f col show ?thesis
    unfolding Let_def w_def [symmetric] worldAxis_def [symmetric] len_def [symmetric]
    by blast
qed

text \<open>
  C2 as stated fails in doubles: the rounded delta need not be collinear with the drag
  axis. The axis \<open>(1, 5 / 2 ^ 30, 0)\<close> has computed length one, so normalising leaves it;
  a pick at \<open>(1 + 1 / 2 ^ 52, 0, 0)\<close> gives the drag length \<open>1 + 1 / 2 ^ 52\<close>, and the
  second component of the delta is rounded. The cross product of the delta and the axis,
  taken without rounding, is not zero.
\<close>

theorem moveDrag_delta_off_axis_in_doubles:
  "dragAxis (options skewBehavior) = Some (Vector3 1 (5 / 2 ^ 30) 0)
   \<and> \<not> useObjectOrientationForDragging skewBehavior
   \<and> fst (pickWithRayOnDragPlane doubles (fl53 (1 / 1000)) (Some skewRay)
            (skewBehavior\<lparr> moving := True \<rparr>)) = Some (Vector3 (1 + 1 / 2 ^ 52) 0 0)
   \<and> dragDelta (moveDrag doubles (fl53 (1 / 1000)) skewRay skewBehavior)
       = Vector3 (1 + 1 / 2 ^ 52) ((5 + 4 / 2 ^ 52) / 2 ^ 30) 0
   \<and> Cross exact (dragDelta (moveDrag doubles (fl53 (1 / 1000)) skewRay skewBehavior))
        (Vector3 1 (5 / 2 ^ 30) 0) = Vector3 0 0 (1 / 2 ^ 82)
   \<and> Vector3 0 0 (1 / 2 ^ 82) \<noteq> Zero"
proof -
  let ?b = "skewBehavior\<lparr> moving := True \<rparr>"
  have free: "\<not> (maxDragAngle ?b > 0
              \<and> gt_nan (foldedAngle doubles (forward (dragPlane ?b)) (direction skewRay))
                   (maxDragAngle ?b))"
    by (simp add: skew_values)
  have hyp1: "\<bar>Dot doubles (direction skewRay) (forward (dragPlane ?b))\<bar> \<ge> fl53 (1 / 1000)"
    by (simp add: skew_values Dot_def fl53_eval)
  have t: "fl doubles (Dot doubles (subtract doubles (position (dragPlane ?b)) (origin skewRay))
                         (forward (dragPlane ?b))
                 / Dot doubles (direction skewRay) (forward (dragPlane ?b))) = 1"
    by (simp add: skew_values Dot_def subtract_def fl53_eval)
  have hyp2: "0 \<le> fl doubles (Dot doubles (subtract doubles (position (dragPlane ?b))
                                              (origin skewRay))
                         (forward (dragPlane ?b))
                 / Dot doubles (direction skewRay) (forward (dragPlane ?b)))"
    unfolding t by simp
  have pt: "add doubles (origin skewRay) (scale doubles (direction skewRay) 1)
              = Vector3 (1 + 1 / 2 ^ 52) 0 0"
    unfolding skew_values by (rule skew_arith)
  note pk = pick_hit [OF free hyp1 refl hyp2, unfolded t pt]
  have nz: "normalize doubles (if useObjectOrientationForDragging skewBehavior
                               then worldRotation skewBehavior (Vector3 1 (5 / 2 ^ 30) 0)
                               else Vector3 1 (5 / 2 ^ 30) 0) = Vector3 1 (5 / 2 ^ 30) 0"
    unfolding skew_values if_False by (rule skew_arith)
  note f = moveDrag_axis_fields(2) [OF skew_values(1) pk refl refl,
      unfolded nz skew_values(2) skew_arith(2) skew_arith(3)]
  have a: "fst (pickWithRayOnDragPlane doubles (fl53 (1 / 1000)) (Some skewRay) ?b)
             = Some (Vector3 (1 + 1 / 2 ^ 52) 0 0)"
    by (simp only: pk fst_conv)
  have c: "Cross exact (dragDelta (moveDrag doubles (fl53 (1 / 1000)) skewRay skewBehavior))
        (Vector3 1 (5 / 2 ^ 30) 0) = Vector3 0 0 (1 / 2 ^ 82)"
    unfolding f by (rule skew_arith)
  have d: "Vector3 0 0 (1 / 2 ^ 82) \<noteq> Zero" by (simp add: Zero_def)
  have b: "\<not> useObjectOrientationForDragging skewBehavior" by (simp add: skew_values)
  from skew_values(1) b a f c d show ?thesis by blast
qed

theorem moveDrag_axis_projection_witness:
  "dragAxis (options turnedBehavior) = Some (Vector3 2 0 0)
   \<and> fst (pickWithRayOnDragPlane exact (1 / 1000) (Some highRay)
            (turnedBehavior\<lparr> moving := True \<rparr>)) = Some (Vector3 2 3 0)
   \<and> useObjectOrientationForDragging turnedBehavior
   \<and> worldRotation turnedBehavior (Vector3 2 0 0) = Vector3 0 2 0
   \<and> fl exact = (\<lambda>x. x)
   \<and> worldDragAxis (moveDrag exact (1 / 1000) highRay turnedBehavior) = Vector3 0 1 0
   \<and> dragDelta (moveDrag exact (1 / 1000) highRay turnedBehavior) = Vector3 0 3 0
   \<and> (\<exists>k. dragDelta (moveDrag exact (1 / 1000) highRay turnedBehavior)
              = scale exact (Vector3 0 2 0) k)
   \<and> (\<exists>ev. onDragObservable (moveDrag exact (1 / 1000) highRay turnedBehavior)
              = onDragObservable turnedBehavior @ [ev]
            \<and> dragDistance ev = 3 \<and> delta ev = Vector3 0 3 0
            \<and> dragPlanePoint ev = Vector3 2 3 0)
   \<and> targetPosition (moveDrag exact (1 / 1000) highRay turnedBehavior) = Vector3 0 3 0
   \<and> lastDragPosition (moveDrag exact (1 / 1000) highRay turnedBehavior) = Vector3 2 3 0"
proof -
  let ?b = "turnedBehavior\<lparr> moving := True \<rparr>"
  have free: "\<not> (maxDragAngle ?b > 0
              \<and> gt_nan (foldedAngle exact (forward (dragPlane ?b)) (direction highRay))
                   (maxDragAngle ?b))"
    by (simp add: turned_values)
  have hyp1: "\<bar>Dot exact (direction highRay) (forward (dragPlane ?b))\<bar> \<ge> 1 / 1000"
    by (simp add: turned_values Dot_def)
  have t: "fl exact (Dot exact (subtract exact (position (dragPlane ?b)) (origin highRay))
                         (forward (dragPlane ?b))
                 / Dot exact (direction highRay) (forward (dragPlane ?b))) = 5"
    by (simp add: turned_values Dot_def subtract_def)
  have hyp2: "0 \<le> fl exact (Dot exact (subtract exact (position (dragPlane ?b))
                                              (origin highRay))
                         (forward (dragPlane ?b))
                 / Dot exact (direction highRay) (forward (dragPlane ?b)))"
    unfolding t by simp
  have pt: "add exact (origin highRay) (scale exact (direction highRay) 5) = Vector3 2 3 0"
    unfolding turned_values by (rule turned_arith)
  note pk = pick_hit [OF free hyp1 refl hyp2, unfolded t pt]
  have a: "fst (pickWithRayOnDragPlane exact (1 / 1000) (Some highRay) ?b)
             = Some (Vector3 2 3 0)"
    by (simp only: pk fst_conv)
  have wa: "(if useObjectOrientationForDragging turnedBehavior
             then worldRotation turnedBehavior (Vector3 2 0 0) else Vector3 2 0 0)
            = Vector3 0 2 0"
    by (simp add: turned_values)
  have ex: "fl exact = (\<lambda>x. x)" by (simp add: exact_def)
  have o: "useObjectOrientationForDragging turnedBehavior" by (simp add: turned_values)
  note r = moveDrag_axis_projection [OF turned_values(1) pk,
      unfolded Let_def wa turned_arith(1) turned_values(2) turned_values(3) turned_arith(2)
        turned_arith(3) turned_arith(4)]
  from turned_values(1) a o turned_values(5) ex r show ?thesis by blast
qed

section \<open>Properties of the thin instances\<close>

subsection \<open>Growing a size by doubling\<close>

lemma growSize_enough: "bufferSize \<le> n \<Longrightarrow> growSize n bufferSize = Some n"
  by (subst growSize.simps) simp

lemma growSize_positive:
  "0 < n \<Longrightarrow> \<exists>j. growSize n b = Some (n * 2 ^ j) \<and> b \<le> n * 2 ^ j \<and> (\<forall>i<j. n * 2 ^ i < b)"
proof (induction "nat (b - n)" arbitrary: n rule: less_induct)
  case less
  show ?case
  proof (cases "n < b")
    case False
    then have "growSize n b = Some (n * 2 ^ 0)" by (simp add: growSize_enough)
    with False show ?thesis by (intro exI[of _ 0]) simp
  next
    case True
    have "nat (b - n * 2) < nat (b - n)" using True less.prems by linarith
    moreover have "0 < n * 2" using less.prems by simp
    ultimately obtain j where j: "growSize (n * 2) b = Some (n * 2 * 2 ^ j)"
      "b \<le> n * 2 * 2 ^ j" "\<forall>i<j. n * 2 * 2 ^ i < b"
      using less.hyps by blast
    have "growSize n b = growSize (n * 2) b"
      using True by (subst growSize.simps) simp
    then have 1: "growSize n b = Some (n * 2 ^ Suc j)" using j(1) by simp
    have 2: "b \<le> n * 2 ^ Suc j" using j(2) by simp
    have 3: "\<forall>i<Suc j. n * 2 ^ i < b"
    proof (intro allI impI)
      fix i assume "i < Suc j"
      show "n * 2 ^ i < b"
      proof (cases i)
        case 0 then show ?thesis using True by simp
      next
        case (Suc i')
        then have "i' < j" using \<open>i < Suc j\<close> by simp
        then have "n * 2 * 2 ^ i' < b" using j(3) by blast
        then show ?thesis using Suc by simp
      qed
    qed
    from 1 2 3 show ?thesis by blast
  qed
qed

lemma growSize_zero_some:
  "growSize n b = Some y \<Longrightarrow> n = 0 \<longrightarrow> b \<le> 0"
proof (rule growSize.raw_induct [where P = "\<lambda>n b y. n = 0 \<longrightarrow> b \<le> 0"
      and newSize = n and bufferSize = b and y = y])
  fix g :: "int \<Rightarrow> int \<Rightarrow> int option" and n' b' y' :: int
  assume ih: "\<And>n b y. g n b = Some y \<Longrightarrow> n = 0 \<longrightarrow> b \<le> 0"
    and st: "(if n' < b' then g (n' * 2) b' else Some n') = Some y'"
  show "n' = 0 \<longrightarrow> b' \<le> 0"
  proof
    assume z: "n' = 0"
    show "b' \<le> 0"
    proof (rule ccontr)
      assume "\<not> b' \<le> 0"
      then have "g (n' * 2) b' = Some y'" using st z by simp
      then have "n' * 2 = 0 \<longrightarrow> b' \<le> 0" by (rule ih)
      with z \<open>\<not> b' \<le> 0\<close> show False by simp
    qed
  qed
qed

lemma growSize_zero_diverges: "0 < b \<Longrightarrow> growSize 0 b = None"
  using growSize_zero_some [of 0 b] by (cases "growSize 0 b") auto

subsection \<open>Writing a matrix\<close>

lemma f32_store_length [simp]: "length (f32_store a i v) = length a"
  by (simp add: f32_store_def)

lemma f32_store_nth:
  "j < length a \<Longrightarrow> f32_store a i v ! j = (if i = int j then v else a ! j)"
  by (auto simp: f32_store_def nth_list_update)

lemma stores_length:
  "length (fold (\<lambda>k acc. f32_store acc (off + int k) (m k)) [0..<n] a) = length a"
  by (induction n) simp_all

lemma stores_nth:
  "j < length a \<Longrightarrow>
     fold (\<lambda>k acc. f32_store acc (off + int k) (m k)) [0..<n] a ! j
       = (if off \<le> int j \<and> int j < off + int n then m (nat (int j - off)) else a ! j)"
proof (induction n)
  case 0
  then show ?case by simp
next
  case (Suc n)
  have eq: "int j = off + int n \<Longrightarrow> nat (int j - off) = n" by simp
  show ?case
    using Suc by (auto simp: f32_store_nth stores_length eq)
qed

lemma copyToArray_length [simp]: "length (copyToArray m a off) = length a"
  by (simp add: copyToArray_def stores_length)

lemma copyToArray_nth:
  "j < length a \<Longrightarrow>
     copyToArray m a off ! j
       = (if off \<le> int j \<and> int j < off + 16 then m (nat (int j - off)) else a ! j)"
  using stores_nth [of j a off m 16] by (simp add: copyToArray_def)

lemma copyToArray_inside:
  assumes "0 \<le> off" "off + 16 \<le> int (length a)" "k < 16"
  shows "copyToArray m a off ! nat (off + int k) = m k"
proof -
  have "nat (off + int k) < length a" using assms by linarith
  then show ?thesis using assms by (simp add: copyToArray_nth)
qed

lemma copyToArray_outside:
  "off + 16 \<le> 0 \<or> int (length a) \<le> off \<Longrightarrow> copyToArray m a off = a"
  by (rule nth_equalityI) (auto simp: copyToArray_nth)

text \<open>What refreshing touches: neither the matrix data, nor the count, nor the cache.\<close>

lemma refresh_frame:
  "matrixData (thinInstanceDataStorage (thinInstanceBufferUpdated ''matrix'' this))
     = matrixData (thinInstanceDataStorage this)"
  "instancesCount (thinInstanceDataStorage (thinInstanceBufferUpdated ''matrix'' this))
     = instancesCount (thinInstanceDataStorage this)"
  "worldMatrices (thinInstanceDataStorage (thinInstanceBufferUpdated ''matrix'' this))
     = worldMatrices (thinInstanceDataStorage this)"
  "matrixBufferSize (thinInstanceDataStorage (thinInstanceBufferUpdated ''matrix'' this))
     = matrixBufferSize (thinInstanceDataStorage this)"
  "doNotSyncBoundingInfo (thinInstanceBufferUpdated ''matrix'' this) = doNotSyncBoundingInfo this"
  "instancedArrays (thinInstanceBufferUpdated ''matrix'' this) = instancedArrays this"
  by (auto simp: thinInstanceBufferUpdated_def thinInstanceRecreateBuffer_def Let_def
      split: option.splits)

lemma bounding_frame [simp]:
  "thinInstanceDataStorage (thinInstanceRefreshBoundingInfo this) = thinInstanceDataStorage this"
  "instancedArrays (thinInstanceRefreshBoundingInfo this) = instancedArrays this"
  by (simp_all add: thinInstanceRefreshBoundingInfo_def Let_def)

lemma setMatrixAt_fail:
  "matrixData (thinInstanceDataStorage this) = None
     \<or> index \<ge> instancesCount (thinInstanceDataStorage this)
   \<Longrightarrow> thinInstanceSetMatrixAt index matrix refresh this = (False, this)"
  by (auto simp: thinInstanceSetMatrixAt_def Let_def split: option.splits)

lemma setMatrixAt_ok:
  assumes "matrixData (thinInstanceDataStorage this) = Some md"
    and "index < instancesCount (thinInstanceDataStorage this)"
  shows "fst (thinInstanceSetMatrixAt index matrix refresh this) = True"
    and "matrixData (thinInstanceDataStorage (snd (thinInstanceSetMatrixAt index matrix refresh this)))
           = Some (copyToArray matrix md (index * 16))"
    and "instancesCount (thinInstanceDataStorage (snd (thinInstanceSetMatrixAt index matrix refresh this)))
           = instancesCount (thinInstanceDataStorage this)"
    and "matrixBufferSize (thinInstanceDataStorage (snd (thinInstanceSetMatrixAt index matrix refresh this)))
           = matrixBufferSize (thinInstanceDataStorage this)"
    and "worldMatrices (thinInstanceDataStorage (snd (thinInstanceSetMatrixAt index matrix refresh this)))
           = (case worldMatrices (thinInstanceDataStorage this) of
                None \<Rightarrow> None | Some wm \<Rightarrow> Some (wm(index \<mapsto> matrix)))"
  using assms
  by (auto simp: thinInstanceSetMatrixAt_def Let_def refresh_frame split: option.splits)

lemma oneInstance_values:
  "matrixData (thinInstanceDataStorage oneInstanceMesh) = Some (replicate 16 0)"
  "instancesCount (thinInstanceDataStorage oneInstanceMesh) = 1"
  "worldMatrices (thinInstanceDataStorage oneInstanceMesh) = None"
  "source oneInstanceMesh = None"
  by (simp_all add: oneInstanceMesh_def newMesh_def)

text \<open>
  C10, as amended. \<open>thinInstanceSetMatrixAt\<close> always returns. Without matrix data, or for
  \<open>index \<ge> instancesCount\<close>, it returns \<open>false\<close> and changes nothing. Otherwise it
  returns \<open>true\<close>, keeps the count, sets the cached world matrix at \<open>index\<close> when the
  cache exists and leaves the other cache entries, and overwrites those of the positions
  \<open>index * 16 \<dots> index * 16 + 15\<close> that lie inside the matrix data, each with its float of
  the matrix, leaving every other float: all sixteen when \<open>0 \<le> index\<close> and
  \<open>(index + 1) * 16 \<le> matrixData.length\<close>.
\<close>

theorem thinInstanceSetMatrixAt_total:
  "(matrixData (thinInstanceDataStorage this) = None
      \<or> index \<ge> instancesCount (thinInstanceDataStorage this) \<longrightarrow>
      thinInstanceSetMatrixAt index matrix refresh this = (False, this))
   \<and> (\<forall>md. matrixData (thinInstanceDataStorage this) = Some md
          \<and> index < instancesCount (thinInstanceDataStorage this) \<longrightarrow>
        (let this' = snd (thinInstanceSetMatrixAt index matrix refresh this);
             st' = thinInstanceDataStorage this'
         in fst (thinInstanceSetMatrixAt index matrix refresh this) = True
          \<and> instancesCount st' = instancesCount (thinInstanceDataStorage this)
          \<and> worldMatrices st'
              = (case worldMatrices (thinInstanceDataStorage this) of
                   None \<Rightarrow> None | Some wm \<Rightarrow> Some (wm(index \<mapsto> matrix)))
          \<and> (\<exists>md'. matrixData st' = Some md' \<and> length md' = length md
                \<and> (\<forall>j<length md. md' ! j =
                       (if index * 16 \<le> int j \<and> int j < index * 16 + 16
                        then matrix (nat (int j - index * 16)) else md ! j))
                \<and> (0 \<le> index \<and> (index + 1) * 16 \<le> int (length md) \<longrightarrow>
                       (\<forall>k<16. md' ! nat (index * 16 + int k) = matrix k)))))"
proof (intro conjI allI impI)
  assume "matrixData (thinInstanceDataStorage this) = None
      \<or> index \<ge> instancesCount (thinInstanceDataStorage this)"
  then show "thinInstanceSetMatrixAt index matrix refresh this = (False, this)"
    by (rule setMatrixAt_fail)
next
  fix md
  assume h: "matrixData (thinInstanceDataStorage this) = Some md
          \<and> index < instancesCount (thinInstanceDataStorage this)"
  note ok = setMatrixAt_ok [OF conjunct1 [OF h] conjunct2 [OF h], of matrix refresh]
  have inside: "0 \<le> index \<and> (index + 1) * 16 \<le> int (length md) \<longrightarrow>
          (\<forall>k<16. copyToArray matrix md (index * 16) ! nat (index * 16 + int k) = matrix k)"
    by (auto intro!: copyToArray_inside)
  show "let this' = snd (thinInstanceSetMatrixAt index matrix refresh this);
             st' = thinInstanceDataStorage this'
         in fst (thinInstanceSetMatrixAt index matrix refresh this) = True
          \<and> instancesCount st' = instancesCount (thinInstanceDataStorage this)
          \<and> worldMatrices st'
              = (case worldMatrices (thinInstanceDataStorage this) of
                   None \<Rightarrow> None | Some wm \<Rightarrow> Some (wm(index \<mapsto> matrix)))
          \<and> (\<exists>md'. matrixData st' = Some md' \<and> length md' = length md
                \<and> (\<forall>j<length md. md' ! j =
                       (if index * 16 \<le> int j \<and> int j < index * 16 + 16
                        then matrix (nat (int j - index * 16)) else md ! j))
                \<and> (0 \<le> index \<and> (index + 1) * 16 \<le> int (length md) \<longrightarrow>
                       (\<forall>k<16. md' ! nat (index * 16 + int k) = matrix k)))"
    unfolding Let_def
    using ok inside by (simp add: copyToArray_nth)
qed

text \<open>
  C10 as stated fails for a negative index below the count: the call returns \<open>true\<close> and
  writes no float, since the stores fall outside the typed array.
\<close>

theorem thinInstanceSetMatrixAt_negative_index:
  "thinInstanceSetMatrixAt (- 1) identityMatrix False oneInstanceMesh = (True, oneInstanceMesh)"
proof -
  have "copyToArray identityMatrix (replicate 16 0) (- 1 * 16) = replicate 16 0"
    by (rule copyToArray_outside) simp
  then show ?thesis
    by (simp add: thinInstanceSetMatrixAt_def Let_def oneInstanceMesh_def newMesh_def)
qed

theorem thinInstanceSetMatrixAt_total_witness:
  "thinInstanceSetMatrixAt 1 identityMatrix False oneInstanceMesh = (False, oneInstanceMesh)
   \<and> fst (thinInstanceSetMatrixAt 0 identityMatrix False oneInstanceMesh) = True
   \<and> (\<exists>md'. matrixData (thinInstanceDataStorage
                (snd (thinInstanceSetMatrixAt 0 identityMatrix False oneInstanceMesh))) = Some md'
         \<and> md' ! 5 = 1 \<and> md' ! 6 = 0)"
proof -
  have a: "thinInstanceSetMatrixAt 1 identityMatrix False oneInstanceMesh = (False, oneInstanceMesh)"
    using thinInstanceSetMatrixAt_total [of oneInstanceMesh 1 identityMatrix False, THEN conjunct1]
    by (simp add: oneInstance_values)
  have h: "matrixData (thinInstanceDataStorage oneInstanceMesh) = Some (replicate 16 0)
          \<and> 0 < instancesCount (thinInstanceDataStorage oneInstanceMesh)"
    by (simp add: oneInstance_values)
  have r: "0 \<le> (0::int) \<and> (0 + 1) * 16 \<le> int (length (replicate 16 (0::real)))" by simp
  from thinInstanceSetMatrixAt_total [of oneInstanceMesh 0 identityMatrix False, THEN conjunct2,
        rule_format, OF h]
  obtain md' where b: "fst (thinInstanceSetMatrixAt 0 identityMatrix False oneInstanceMesh) = True"
    and md': "matrixData (thinInstanceDataStorage
                (snd (thinInstanceSetMatrixAt 0 identityMatrix False oneInstanceMesh))) = Some md'"
    and w: "0 \<le> (0::int) \<and> (0 + 1) * 16 \<le> int (length (replicate 16 (0::real))) \<longrightarrow>
                       (\<forall>k<16. md' ! nat (0 * 16 + int k) = identityMatrix k)"
    unfolding Let_def by blast
  from w r have all: "\<forall>k<16. md' ! nat (0 * 16 + int k) = identityMatrix k" by blast
  have "md' ! 5 = 1" using all [rule_format, of 5] by (simp add: identityMatrix_def)
  moreover have "md' ! 6 = 0" using all [rule_format, of 6] by (simp add: identityMatrix_def)
  ultimately show ?thesis using a b md' by blast
qed

subsection \<open>The count setter\<close>





subsection \<open>Adding instances\<close>

text \<open>
  C4 at a mesh that was given an empty matrix buffer: \<open>thinInstanceSetBuffer("matrix",
  new Float32Array(0))\<close> records the buffer size \<open>0\<close>, and the next \<open>thinInstanceAdd\<close>
  doubles \<open>0\<close> for ever and returns nothing, though the engine supports instanced arrays.
\<close>

theorem thinInstanceAdd_hangs_on_empty_buffer:
  "thinInstanceSetBuffer ''matrix'' (Some []) 0 True newMesh = Inr emptyBufferMesh
   \<and> instancedArrays emptyBufferMesh
   \<and> thinInstanceAdd (Single identityMatrix) True emptyBufferMesh = None"
proof -
  have a: "thinInstanceSetBuffer ''matrix'' (Some []) 0 True newMesh = Inr emptyBufferMesh"
    by (simp add: thinInstanceSetBuffer_def Let_def newMesh_def emptyBufferMesh_def
          thinInstanceCreateMatrixBuffer_def thinInstanceRefreshBoundingInfo_def)
  have b: "instancedArrays emptyBufferMesh"
    by (simp add: emptyBufferMesh_def newMesh_def)
  have "thinInstanceUpdateBufferSize ''matrix'' 1 emptyBufferMesh = None"
    by (simp add: thinInstanceUpdateBufferSize_def Let_def normalizeKind_def ColorKind_def
          strideOf_def currentSizeOf_def emptyBufferMesh_def newMesh_def growSize_zero_diverges)
  then have c: "thinInstanceAdd (Single identityMatrix) True emptyBufferMesh = None"
    using b by (simp add: thinInstanceAdd_def)
  from a b c show ?thesis by blast
qed

subsection \<open>Growing the buffer\<close>

lemma storeResized_reads:
  assumes "strideOf this kind = Some stride"
  shows "dataOf (storeResized kind d (Some n) this) kind = Some d"
    and "currentSizeOf (storeResized kind d (Some n) this) kind = Some n"
    and "instancesCount (thinInstanceDataStorage (storeResized kind d (Some n) this))
           = instancesCount (thinInstanceDataStorage this)"
  using assms
  by (auto simp: storeResized_def dataOf_def currentSizeOf_def strideOf_def Let_def
      split: option.splits if_splits)

lemma f32_set_zeros:
  "length old \<le> n \<Longrightarrow> f32_set (replicate n 0) old = Inr (old @ replicate (n - length old) 0)"
  by (simp add: f32_set_def)

lemma doubled_eq_iff: "0 < (c::int) \<Longrightarrow> (c \<noteq> c * 2 ^ j) = (j \<noteq> 0)"
proof (cases j)
  case 0
  then show ?thesis by simp
next
  case (Suc n)
  assume pos: "0 < c"
  have "(1::int) \<le> 2 ^ n" by simp
  then have "c * 1 \<le> c * 2 ^ n" using pos by (intro mult_left_mono) simp_all
  then have "c < 2 * (c * 2 ^ n)" using pos by linarith
  moreover have "c * 2 ^ Suc n = 2 * (c * 2 ^ n)" by simp
  ultimately have "c < c * 2 ^ Suc n" by (simp only:)
  then have "c \<noteq> c * 2 ^ j" unfolding Suc by (rule less_imp_neq)
  then show ?thesis unfolding Suc by blast
qed




subsection \<open>Adding instances to a storage of positive size\<close>

text \<open>
  Away from the empty buffer \<open>thinInstanceAdd\<close> does what its documentation says: with
  instanced arrays supported, a positive recorded size that is the length of the matrix
  data when there is any, and a count that is not negative, it returns the count held
  before the call, raises the count by the number of matrices, and leaves the \<open>p\<close>-th
  matrix at the float offset \<open>(index + p) * 16\<close>. Without instanced arrays it returns
  \<open>-1\<close> and only logs an error.
\<close>

lemma storeResized_matrix_frame:
  "instancedArrays (storeResized ''matrix'' d n this) = instancedArrays this"
  "matrixBufferSize (thinInstanceDataStorage (storeResized ''matrix'' d (Some k) this)) = k"
  "worldMatrices (thinInstanceDataStorage (storeResized ''matrix'' d n this))
     = worldMatrices (thinInstanceDataStorage this)"
  by (simp_all add: storeResized_def Let_def)

lemma updateBufferSize_matrix:
  assumes pos: "0 < matrixBufferSize (thinInstanceDataStorage this)"
    and sync: "\<forall>d. matrixData (thinInstanceDataStorage this) = Some d
                 \<longrightarrow> int (length d) = matrixBufferSize (thinInstanceDataStorage this)"
  shows "\<exists>this1 d1.
           thinInstanceUpdateBufferSize ''matrix'' n this = Some (Inr this1)
           \<and> instancesCount (thinInstanceDataStorage this1)
               = instancesCount (thinInstanceDataStorage this)
           \<and> instancedArrays this1 = instancedArrays this
           \<and> matrixData (thinInstanceDataStorage this1) = Some d1
           \<and> int (length d1) = matrixBufferSize (thinInstanceDataStorage this1)
           \<and> (instancesCount (thinInstanceDataStorage this) + n) * 16 \<le> int (length d1)"
proof -
  let ?st = "thinInstanceDataStorage this"
  let ?cur = "matrixBufferSize ?st"
  let ?need = "(instancesCount ?st + n) * 16"
  have nk: "normalizeKind ''matrix'' = ''matrix''"
    by (simp add: normalizeKind_def ColorKind_def)
  have st: "strideOf this ''matrix'' = Some 16" by (simp add: strideOf_def)
  have cs: "currentSizeOf this ''matrix'' = Some ?cur" by (simp add: currentSizeOf_def)
  have dt: "dataOf this ''matrix'' = matrixData ?st" by (simp add: dataOf_def)
  obtain j where g: "growSize ?cur ?need = Some (?cur * 2 ^ j)"
    and enough: "?need \<le> ?cur * 2 ^ j"
    using growSize_positive [OF pos] by blast
  let ?new = "?cur * 2 ^ j"
  have newpos: "0 < ?new" using pos by simp
  have alloc: "new_Float32Array ?new = Inr (replicate (nat ?new) 0)"
    using newpos by (simp add: new_Float32Array_def)
  show ?thesis
  proof (cases "matrixData ?st")
    case None
    let ?d = "replicate (nat ?new) (0::real)"
    have "thinInstanceUpdateBufferSize ''matrix'' n this
            = Some (Inr (storeResized ''matrix'' ?d (Some ?new) this))"
      using None g alloc by (simp add: thinInstanceUpdateBufferSize_def Let_def nk st cs dt)
    moreover have "int (length ?d) = ?new" using newpos by simp
    ultimately show ?thesis
      using enough storeResized_reads [OF st, of ?d ?new]
      by (intro exI [of _ "storeResized ''matrix'' ?d (Some ?new) this"] exI [of _ ?d])
         (simp add: dataOf_def storeResized_matrix_frame)
  next
    case (Some old)
    then have len: "int (length old) = ?cur" using sync by blast
    show ?thesis
    proof (cases "j = 0")
      case True
      then have "thinInstanceUpdateBufferSize ''matrix'' n this = Some (Inr this)"
        using Some g by (simp add: thinInstanceUpdateBufferSize_def Let_def nk st cs dt)
      then show ?thesis
        using Some len enough True by (intro exI [of _ this] exI [of _ old]) simp
    next
      case False
      then have ne: "?cur \<noteq> ?new" using doubled_eq_iff [OF pos] by blast
      have le: "length old \<le> nat ?new"
      proof -
        have "?cur \<le> ?new" using pos by simp
        with len show ?thesis by linarith
      qed
      let ?d = "old @ replicate (nat ?new - length old) 0"
      have "thinInstanceUpdateBufferSize ''matrix'' n this
              = Some (Inr (storeResized ''matrix'' ?d (Some ?new) this))"
        using Some g alloc ne f32_set_zeros [OF le]
        by (simp add: thinInstanceUpdateBufferSize_def Let_def nk st cs dt)
      moreover have "int (length ?d) = ?new" using le newpos by simp
      ultimately show ?thesis
        using enough storeResized_reads [OF st, of ?d ?new]
        by (intro exI [of _ "storeResized ''matrix'' ?d (Some ?new) this"] exI [of _ ?d])
           (simp add: dataOf_def storeResized_matrix_frame)
    qed
  qed
qed

lemma addMatrices_effect:
  assumes "matrixData (thinInstanceDataStorage this) = Some md"
    and "0 \<le> instancesCount (thinInstanceDataStorage this)"
    and "(instancesCount (thinInstanceDataStorage this) + int (length ms)) * 16 \<le> int (length md)"
  shows "instancesCount (thinInstanceDataStorage (addMatrices ms i n r this))
           = instancesCount (thinInstanceDataStorage this) + int (length ms)
       \<and> (\<exists>md'. matrixData (thinInstanceDataStorage (addMatrices ms i n r this)) = Some md'
             \<and> length md' = length md
             \<and> (\<forall>p<length ms. \<forall>k<16.
                    md' ! nat ((instancesCount (thinInstanceDataStorage this) + int p) * 16 + int k)
                      = (ms ! p) k)
             \<and> (\<forall>j<length md. int j < instancesCount (thinInstanceDataStorage this) * 16
                    \<longrightarrow> md' ! j = md ! j))"
  using assms
proof (induction ms arbitrary: this md i)
  case Nil
  then show ?case by simp
next
  case (Cons m rest)
  let ?c = "instancesCount (thinInstanceDataStorage this)"
  let ?this1 = "this\<lparr> thinInstanceDataStorage :=
                  (thinInstanceDataStorage this)\<lparr> instancesCount := ?c + 1 \<rparr> \<rparr>"
  let ?flag = "(i = n - 1 \<and> r)"
  let ?this2 = "snd (thinInstanceSetMatrixAt ?c m ?flag ?this1)"
  let ?md2 = "copyToArray m md (?c * 16)"
  have d1: "matrixData (thinInstanceDataStorage ?this1) = Some md"
    using Cons.prems(1) by simp
  have lt: "?c < instancesCount (thinInstanceDataStorage ?this1)" by simp
  note ok = setMatrixAt_ok [OF d1 lt, of m ?flag]
  have d2: "matrixData (thinInstanceDataStorage ?this2) = Some ?md2" using ok(2) .
  have c2: "instancesCount (thinInstanceDataStorage ?this2) = ?c + 1" using ok(3) by simp
  have nonneg2: "0 \<le> instancesCount (thinInstanceDataStorage ?this2)"
    using c2 Cons.prems(2) by simp
  have cap2: "(instancesCount (thinInstanceDataStorage ?this2) + int (length rest)) * 16
                \<le> int (length ?md2)"
    using c2 Cons.prems(3) by (simp add: algebra_simps)
  have unfold: "addMatrices (m # rest) i n r this = addMatrices rest (i + 1) n r ?this2"
    by (simp add: Let_def)
  from Cons.IH [OF d2 nonneg2 cap2, of "i + 1"]
  obtain md' where cnt: "instancesCount (thinInstanceDataStorage (addMatrices rest (i + 1) n r ?this2))
                          = ?c + 1 + int (length rest)"
    and dm: "matrixData (thinInstanceDataStorage (addMatrices rest (i + 1) n r ?this2)) = Some md'"
    and ln: "length md' = length md"
    and wr: "\<forall>p<length rest. \<forall>k<16. md' ! nat ((?c + 1 + int p) * 16 + int k) = (rest ! p) k"
    and keep: "\<forall>j<length md. int j < (?c + 1) * 16 \<longrightarrow> md' ! j = ?md2 ! j"
    unfolding c2 by auto
  have slot: "\<forall>k<16. md' ! nat (?c * 16 + int k) = m k"
  proof (intro allI impI)
    fix k :: nat assume k: "k < 16"
    have inb: "?c * 16 + 16 \<le> int (length md)" using Cons.prems(3) by (simp add: algebra_simps)
    have nn: "0 \<le> ?c * 16" using Cons.prems(2) by simp
    have "nat (?c * 16 + int k) < length md" using inb nn k by linarith
    moreover have "int (nat (?c * 16 + int k)) < (?c + 1) * 16" using nn k by (simp add: algebra_simps)
    ultimately have "md' ! nat (?c * 16 + int k) = ?md2 ! nat (?c * 16 + int k)"
      using keep by blast
    also have "\<dots> = m k" using nn inb k by (rule copyToArray_inside)
    finally show "md' ! nat (?c * 16 + int k) = m k" .
  qed
  have all: "\<forall>p<length (m # rest). \<forall>k<16.
               md' ! nat ((?c + int p) * 16 + int k) = ((m # rest) ! p) k"
  proof (intro allI impI)
    fix p k :: nat assume p: "p < length (m # rest)" and k: "k < 16"
    show "md' ! nat ((?c + int p) * 16 + int k) = ((m # rest) ! p) k"
    proof (cases p)
      case 0
      then show ?thesis using slot k by simp
    next
      case (Suc p')
      then have "p' < length rest" using p by simp
      then have "md' ! nat ((?c + 1 + int p') * 16 + int k) = (rest ! p') k" using wr k by blast
      moreover have "(?c + int p) * 16 + int k = (?c + 1 + int p') * 16 + int k"
        using Suc by simp
      moreover have "(m # rest) ! p = rest ! p'" using Suc by simp
      ultimately show ?thesis by (simp only:)
    qed
  qed
  have old: "\<forall>j<length md. int j < ?c * 16 \<longrightarrow> md' ! j = md ! j"
  proof (intro allI impI)
    fix j assume j: "j < length md" and b: "int j < ?c * 16"
    then have "md' ! j = ?md2 ! j" using keep by (simp add: algebra_simps)
    also have "\<dots> = md ! j" using j b by (simp add: copyToArray_nth)
    finally show "md' ! j = md ! j" .
  qed
  show ?case
    unfolding unfold using cnt dm ln all old by (simp add: algebra_simps)
qed

lemma thinInstanceAdd_unsupported:
  "\<not> instancedArrays this \<Longrightarrow>
     thinInstanceAdd matrix refresh this
       = Some (Inr (- 1, this\<lparr> loggedErrors := loggedErrors this + 1 \<rparr>))"
  by (simp add: thinInstanceAdd_def)

lemma thinInstanceAdd_single_as_array:
  "thinInstanceAdd (Single m) refresh this = thinInstanceAdd (Array [m]) refresh this"
  by (simp add: thinInstanceAdd_def Let_def split: option.splits sum.splits)

lemma thinInstanceAdd_array:
  assumes sup: "instancedArrays this"
    and pos: "0 < matrixBufferSize (thinInstanceDataStorage this)"
    and nonneg: "0 \<le> instancesCount (thinInstanceDataStorage this)"
    and sync: "\<forall>d. matrixData (thinInstanceDataStorage this) = Some d
                 \<longrightarrow> int (length d) = matrixBufferSize (thinInstanceDataStorage this)"
  shows "\<exists>this' md'.
           thinInstanceAdd (Array ms) refresh this
             = Some (Inr (instancesCount (thinInstanceDataStorage this), this'))
           \<and> instancesCount (thinInstanceDataStorage this')
               = instancesCount (thinInstanceDataStorage this) + int (length ms)
           \<and> matrixData (thinInstanceDataStorage this') = Some md'
           \<and> (\<forall>p<length ms. \<forall>k<16.
                 md' ! nat ((instancesCount (thinInstanceDataStorage this) + int p) * 16 + int k)
                   = (ms ! p) k)"
proof -
  let ?c = "instancesCount (thinInstanceDataStorage this)"
  from updateBufferSize_matrix [OF pos sync, of "int (length ms)"]
  obtain this1 d1 where
    u: "thinInstanceUpdateBufferSize ''matrix'' (int (length ms)) this = Some (Inr this1)"
    and c1: "instancesCount (thinInstanceDataStorage this1) = ?c"
    and m1: "matrixData (thinInstanceDataStorage this1) = Some d1"
    and cap: "(?c + int (length ms)) * 16 \<le> int (length d1)"
    by blast
  let ?this' = "addMatrices ms 0 (int (length ms)) refresh this1"
  have r: "thinInstanceAdd (Array ms) refresh this = Some (Inr (?c, ?this'))"
    using sup u c1 by (simp add: thinInstanceAdd_def Let_def)
  from addMatrices_effect [OF m1, of ms 0 "int (length ms)" refresh] nonneg cap c1
  obtain md' where "instancesCount (thinInstanceDataStorage ?this') = ?c + int (length ms)"
    and "matrixData (thinInstanceDataStorage ?this') = Some md'"
    and "\<forall>p<length ms. \<forall>k<16. md' ! nat ((?c + int p) * 16 + int k) = (ms ! p) k"
    by auto
  with r show ?thesis by blast
qed

subsection \<open>The recorded sizes follow the arrays\<close>

text \<open>
  Every method modelled here keeps \<open>storageInSync\<close>, which a mesh without thin instances
  satisfies: the hypotheses on the recorded size made above hold at the states the methods
  produce.
\<close>

lemma sync_newMesh: "storageInSync newMesh"
  by (simp add: storageInSync_def newMesh_def)

lemma sync_setter: "storageInSync this \<Longrightarrow> storageInSync (set_thinInstanceCount v this)"
  by (simp add: storageInSync_def set_thinInstanceCount_def)

lemma sync_setBuffer:
  assumes "storageInSync this"
    and "thinInstanceSetBuffer kind buffer stride staticBuffer this = Inr this'"
  shows "storageInSync this'"
proof (cases "kind = ''matrix''")
  case True
  then show ?thesis
    using assms
    by (auto simp: thinInstanceSetBuffer_def storageInSync_def Let_def
          thinInstanceRefreshBoundingInfo_def split: option.splits if_splits)
next
  case False
  show ?thesis
  proof (cases "kind = ''previousMatrix''")
    case True
    then show ?thesis
      using assms False
      by (auto simp: thinInstanceSetBuffer_def storageInSync_def Let_def)
  next
    case pm: False
    show ?thesis
    proof (cases buffer)
      case None
      then show ?thesis
        using assms False pm
        by (auto simp: thinInstanceSetBuffer_def storageInSync_def Let_def
            split: option.splits if_splits)
    next
      case (Some b)
      then show ?thesis
        using assms False pm
        by (auto simp: thinInstanceSetBuffer_def storageInSync_def Let_def
              thinInstanceInitializeUserStorage_def
            split: option.splits if_splits)
    qed
  qed
qed

lemma new_Float32Array_length:
  "new_Float32Array n = Inr d \<Longrightarrow> int (length d) = n"
  by (auto simp: new_Float32Array_def split: if_splits)

lemma f32_set_length:
  "f32_set target src = Inr d \<Longrightarrow> length d = length target"
  by (auto simp: f32_set_def split: if_splits)

lemma sync_storeResized:
  assumes "storageInSync this"
  shows "storageInSync (storeResized kind d (Some (int (length d))) this)"
  using assms
  by (auto simp: storageInSync_def storeResized_def Let_def split: option.splits)

lemma sync_updateBufferSize:
  assumes sync: "storageInSync this"
    and res: "thinInstanceUpdateBufferSize kind0 n this = Some (Inr this')"
  shows "storageInSync this'"
proof -
  let ?kind = "normalizeKind kind0"
  show ?thesis
  proof (cases "strideOf this ?kind")
    case None
    with res sync show ?thesis by (simp add: thinInstanceUpdateBufferSize_def Let_def)
  next
    case (Some stride)
    show ?thesis
    proof (cases "stride = 0")
      case True
      with res sync Some show ?thesis by (simp add: thinInstanceUpdateBufferSize_def Let_def)
    next
      case nz: False
      have sized: "currentSizeOf this ?kind \<noteq> None"
        using sync Some
        by (auto simp: storageInSync_def strideOf_def currentSizeOf_def
            split: if_splits option.splits)
      then obtain cur where cur: "currentSizeOf this ?kind = Some cur" by blast
      from res Some nz cur obtain newSize where g: "growSize cur
          ((instancesCount (thinInstanceDataStorage this) + n) * stride) = Some newSize"
        by (auto simp: thinInstanceUpdateBufferSize_def Let_def split: option.splits)
      show ?thesis
      proof (cases "dataOf this ?kind")
        case None
        from res Some nz cur g None obtain d where a: "new_Float32Array newSize = Inr d"
          and r: "this' = storeResized ?kind d (Some newSize) this"
          by (auto simp: thinInstanceUpdateBufferSize_def Let_def split: sum.splits)
        from new_Float32Array_length [OF a] have "newSize = int (length d)" by simp
        with r sync show ?thesis by (simp add: sync_storeResized)
      next
        case old: (Some old)
        show ?thesis
        proof (cases "cur = newSize")
          case True
          with res Some nz cur g old have "this' = this"
            by (simp add: thinInstanceUpdateBufferSize_def Let_def)
          with sync show ?thesis by simp
        next
          case False
          with res Some nz cur g old obtain nd d where a: "new_Float32Array newSize = Inr nd"
            and b: "f32_set nd old = Inr d"
            and r: "this' = storeResized ?kind d (Some newSize) this"
            by (auto simp: thinInstanceUpdateBufferSize_def Let_def split: sum.splits)
          from new_Float32Array_length [OF a] f32_set_length [OF b]
          have "newSize = int (length d)" by simp
          with r sync show ?thesis by (simp add: sync_storeResized)
        qed
      qed
    qed
  qed
qed

lemma sync_bufferUpdated:
  "storageInSync this \<Longrightarrow> storageInSync (thinInstanceBufferUpdated ''matrix'' this)"
  by (auto simp: storageInSync_def thinInstanceBufferUpdated_def thinInstanceRecreateBuffer_def
        Let_def split: option.splits)

lemma sync_refreshBounding:
  "storageInSync (thinInstanceRefreshBoundingInfo this) = storageInSync this"
  by (simp add: storageInSync_def thinInstanceRefreshBoundingInfo_def Let_def)

lemma sync_setMatrixAt:
  assumes "storageInSync this"
  shows "storageInSync (snd (thinInstanceSetMatrixAt index matrix refresh this))"
proof (cases "matrixData (thinInstanceDataStorage this) = None
               \<or> index \<ge> instancesCount (thinInstanceDataStorage this)")
  case True
  then show ?thesis using assms by (simp add: setMatrixAt_fail)
next
  case False
  then obtain md where md: "matrixData (thinInstanceDataStorage this) = Some md" by auto
  let ?this2 = "this\<lparr> thinInstanceDataStorage :=
     (case worldMatrices (thinInstanceDataStorage this) of
        Some wm \<Rightarrow> (thinInstanceDataStorage this)
           \<lparr> matrixData := Some (copyToArray matrix md (index * 16)),
             worldMatrices := Some (wm(index \<mapsto> matrix)) \<rparr>
      | None \<Rightarrow> (thinInstanceDataStorage this)
           \<lparr> matrixData := Some (copyToArray matrix md (index * 16)) \<rparr>) \<rparr>"
  have s2: "storageInSync ?this2"
    using assms md by (auto simp: storageInSync_def split: option.splits)
  have "snd (thinInstanceSetMatrixAt index matrix refresh this)
          = (if refresh then
               (let a = thinInstanceBufferUpdated ''matrix'' ?this2
                in if \<not> doNotSyncBoundingInfo a then thinInstanceRefreshBoundingInfo a else a)
             else ?this2)"
    using False md by (auto simp: thinInstanceSetMatrixAt_def Let_def split: option.splits)
  then show ?thesis
    using s2 by (simp add: Let_def sync_bufferUpdated sync_refreshBounding)
qed

lemma sync_addMatrices:
  "storageInSync this \<Longrightarrow> storageInSync (addMatrices ms i n r this)"
proof (induction ms arbitrary: this i)
  case Nil
  then show ?case by simp
next
  case (Cons m rest)
  let ?this1 = "this\<lparr> thinInstanceDataStorage := (thinInstanceDataStorage this)
                  \<lparr> instancesCount := instancesCount (thinInstanceDataStorage this) + 1 \<rparr> \<rparr>"
  have "storageInSync ?this1" using Cons.prems by (simp add: storageInSync_def)
  then have "storageInSync (snd (thinInstanceSetMatrixAt
               (instancesCount (thinInstanceDataStorage this)) m (i = n - 1 \<and> r) ?this1))"
    by (rule sync_setMatrixAt)
  then show ?case by (simp add: Let_def Cons.IH)
qed

lemma sync_thinInstanceAdd:
  assumes "storageInSync this"
    and "thinInstanceAdd matrix refresh this = Some (Inr (index, this'))"
  shows "storageInSync this'"
proof (cases "instancedArrays this")
  case False
  with assms show ?thesis by (auto simp: thinInstanceAdd_def storageInSync_def)
next
  case True
  let ?n = "case matrix of Array ms \<Rightarrow> int (length ms) | Single m \<Rightarrow> 1"
  from assms(2) True obtain this1 where
    u: "thinInstanceUpdateBufferSize ''matrix'' ?n this = Some (Inr this1)"
    by (auto simp: thinInstanceAdd_def split: option.splits sum.splits)
  have s1: "storageInSync this1" using assms(1) u by (rule sync_updateBufferSize)
  show ?thesis
  proof (cases matrix)
    case (Array ms)
    with assms(2) True u have "this' = addMatrices ms 0 (int (length ms)) refresh this1"
      by (simp add: thinInstanceAdd_def Let_def)
    with s1 show ?thesis by (simp add: sync_addMatrices)
  next
    case (Single m)
    with assms(2) True u have "this' = addMatrices [m] 0 1 refresh this1"
      by (auto simp: thinInstanceAdd_def Let_def)
    with s1 show ?thesis by (simp only: sync_addMatrices)
  qed
qed

section \<open>Properties of the hand tracking\<close>

subsection \<open>Creating hands\<close>

lemma pick_put: "pick side (put side' v lr) = (if side = side' then v else pick side lr)"
  by (cases side; cases side') (simp_all add: pick_def put_def)

lemma attachHand_skip:
  "\<not> eligible c \<Longrightarrow> attachHand opts c s = s"
  by (cases "handedness (inputSource c)")
     (auto simp: attachHand_def eligible_def sideOf_def split: option.splits)

lemma attachHand_resources [simp]:
  "handResources (attachHand opts c s) = handResources s"
  by (simp add: attachHand_def Let_def split: option.splits)

lemma attachHand_observers [simp]:
  "controllerAddedObservers (attachHand opts c s) = controllerAddedObservers s"
  "controllerRemovedObservers (attachHand opts c s) = controllerRemovedObservers s"
  by (simp_all add: attachHand_def Let_def split: option.splits)

lemma attachHand_adds:
  assumes "eligible c" and "jointMeshes (handResources s) \<noteq> None"
  shows "handAddedFor c s (attachHand opts c s)"
proof -
  from assms(1) obtain side where side: "sideOf (handedness (inputSource c)) = Some side"
    and hd: "hand (inputSource c)" and nn: "handedness (inputSource c) \<noteq> Hnone"
    by (auto simp: eligible_def sideOf_def)
  from assms(2) obtain jm where jm: "jointMeshes (handResources s) = Some jm" by blast
  show ?thesis
    using side hd nn jm
    by (simp add: handAddedFor_def attachHand_def Let_def getHandByControllerId_def
          getHandByHandedness_def update_conv' pick_put)
qed

lemma fold_attachHand_resources [simp]:
  "handResources (fold (attachHand opts) cs s) = handResources s"
  by (induction cs arbitrary: s) simp_all

lemma handAddedFor_observers:
  "handAddedFor c (s\<lparr> controllerAddedObservers := a, controllerRemovedObservers := r \<rparr>)
                  (s'\<lparr> controllerAddedObservers := a', controllerRemovedObservers := r' \<rparr>)
     = handAddedFor c s s'"
  by (simp add: handAddedFor_def getHandByControllerId_def getHandByHandedness_def
        split: option.splits)

lemma attach_unfold:
  "snd (attach True opts cs this)
     = (fold (attachHand opts) cs
          (this\<lparr> handResources :=
             (if jointMeshes (handResources this) = None
              then (handResources this)\<lparr> jointMeshes := Some GenerateTrackedJointMeshes \<rparr>
              else handResources this)
               \<lparr> handMeshes := customMeshes opts, rigMappings := customRigMappings opts \<rparr> \<rparr>))
       \<lparr> controllerAddedObservers :=
           controllerAddedObservers this @ [AttachHandHandler],
         controllerRemovedObservers :=
           controllerRemovedObservers this @ [DetachHandHandler] \<rparr>"
proof -
  have obs: "\<And>s. controllerAddedObservers (fold (attachHand opts) cs s) = controllerAddedObservers s
            \<and> controllerRemovedObservers (fold (attachHand opts) cs s) = controllerRemovedObservers s"
    by (induction cs) simp_all
  show ?thesis
    by (simp add: attach_def Let_def obs)
qed

lemma attach_joint_meshes:
  "jointMeshes (handResources (snd (attach True opts cs this))) \<noteq> None"
  by (simp add: attach_unfold)

text \<open>
  C6. \<open>attach\<close>, when \<open>super.attach()\<close> succeeds, returns \<open>true\<close> and goes through the
  controllers of \<open>options.xrInput.controllers\<close> in order. Comparing the feature after the
  first \<open>i\<close> controllers with the feature after one more: a controller whose input source
  has a hand and whose handedness is left or right gets exactly one new \<open>WebXRHand\<close>,
  stored in \<open>_attachedHands\<close> under its \<open>uniqueId\<close> and in \<open>_trackingHands\<close> under its
  handedness, and announced once on \<open>onHandAddedObservable\<close>; any other controller changes
  nothing. The same holds for a controller reported later by
  \<open>onControllerAddedObservable\<close>, the feature having had no observer there before the
  attach. When \<open>super.attach()\<close> fails nothing happens.
\<close>

theorem attach_wires_hand_creation:
  "fst (attach True opts cs this) = True
   \<and> attach False opts cs this = (False, this)
   \<and> (\<forall>i<length cs.
         (let s = snd (attach True opts (take i cs) this);
              s' = snd (attach True opts (take (Suc i) cs) this)
          in if eligible (cs ! i) then handAddedFor (cs ! i) s s' else s' = s))
   \<and> (controllerAddedObservers this = [] \<longrightarrow>
         (let s = snd (attach True opts cs this);
              s' = onControllerAdded opts c s
          in if eligible c then handAddedFor c s s' else s' = s))"
proof (intro conjI allI impI)
  show "fst (attach True opts cs this) = True" by (simp add: attach_def Let_def)
  show "attach False opts cs this = (False, this)" by (simp add: attach_def)
next
  fix i assume i: "i < length cs"
  let ?base = "this\<lparr> handResources :=
             (if jointMeshes (handResources this) = None
              then (handResources this)\<lparr> jointMeshes := Some GenerateTrackedJointMeshes \<rparr>
              else handResources this)
               \<lparr> handMeshes := customMeshes opts, rigMappings := customRigMappings opts \<rparr> \<rparr>"
  let ?core = "fold (attachHand opts) (take i cs) ?base"
  have step: "fold (attachHand opts) (take (Suc i) cs) ?base = attachHand opts (cs ! i) ?core"
    using i by (simp add: take_Suc_conv_app_nth)
  have jm: "jointMeshes (handResources ?core) \<noteq> None" by simp
  show "let s = snd (attach True opts (take i cs) this);
            s' = snd (attach True opts (take (Suc i) cs) this)
        in if eligible (cs ! i) then handAddedFor (cs ! i) s s' else s' = s"
  proof (cases "eligible (cs ! i)")
    case True
    have "handAddedFor (cs ! i) ?core (attachHand opts (cs ! i) ?core)"
      using True jm by (rule attachHand_adds)
    then show ?thesis
      unfolding Let_def attach_unfold step using True
      by (simp only: handAddedFor_observers if_True)
  next
    case False
    then show ?thesis
      unfolding Let_def attach_unfold step by (simp add: attachHand_skip)
  qed
next
  assume empty: "controllerAddedObservers this = []"
  let ?s = "snd (attach True opts cs this)"
  have obs: "controllerAddedObservers ?s = [AttachHandHandler]"
    using empty by (simp add: attach_unfold)
  have run: "onControllerAdded opts c ?s = attachHand opts c ?s"
    by (simp add: onControllerAdded_def obs runHandler_def)
  show "let s = snd (attach True opts cs this);
            s' = onControllerAdded opts c s
        in if eligible c then handAddedFor c s s' else s' = s"
    unfolding Let_def run
    using attachHand_adds [OF _ attach_joint_meshes] attachHand_skip by simp
qed

lemma example_controllers:
  "eligible leftHandController" "\<not> eligible gamepadController"
  by (simp_all add: eligible_def leftHandController_def gamepadController_def)

theorem attach_wires_hand_creation_witness:
  "handAddedFor leftHandController
      (snd (attach True plainOptions [] newHandTracking))
      (snd (attach True plainOptions [leftHandController] newHandTracking))
   \<and> snd (attach True plainOptions [leftHandController, gamepadController] newHandTracking)
       = snd (attach True plainOptions [leftHandController] newHandTracking)
   \<and> handAddedFor leftHandController
        (snd (attach True plainOptions [] newHandTracking))
        (onControllerAdded plainOptions leftHandController
           (snd (attach True plainOptions [] newHandTracking)))"
proof -
  let ?cs = "[leftHandController, gamepadController]"
  note t = attach_wires_hand_creation [of plainOptions ?cs newHandTracking leftHandController]
  note steps = t [THEN conjunct2, THEN conjunct2, THEN conjunct1, rule_format]
  have l0: "0 < length ?cs" and l1: "1 < length ?cs" by simp_all
  have a: "handAddedFor leftHandController
      (snd (attach True plainOptions [] newHandTracking))
      (snd (attach True plainOptions [leftHandController] newHandTracking))"
    using steps [OF l0] example_controllers(1) by (simp add: Let_def)
  have b: "snd (attach True plainOptions [leftHandController, gamepadController] newHandTracking)
       = snd (attach True plainOptions [leftHandController] newHandTracking)"
    using steps [OF l1] example_controllers(2) by (simp add: Let_def)
  have e: "controllerAddedObservers newHandTracking = []"
    by (simp add: newHandTracking_def)
  have c: "handAddedFor leftHandController
        (snd (attach True plainOptions [] newHandTracking))
        (onControllerAdded plainOptions leftHandController
           (snd (attach True plainOptions [] newHandTracking)))"
    using attach_wires_hand_creation [of plainOptions "[]" newHandTracking leftHandController,
            THEN conjunct2, THEN conjunct2, THEN conjunct2, rule_format, OF e]
          example_controllers(1)
    by (simp add: Let_def)
  from a b c show ?thesis by blast
qed

subsection \<open>The registries\<close>

lemma ctrl_simps [simp]:
  "uniqueId (ctrl W uid) = uid" "inputSource (ctrl W uid) = W uid"
  by (simp_all add: ctrl_def)

lemma consistent_start: "registriesConsistent W newHandTracking"
  by (auto simp: registriesConsistent_def newHandTracking_def pick_def split: Side.splits)

lemma consistent_attachHand:
  assumes "registriesConsistent W s"
  shows "registriesConsistent W (attachHand opts (ctrl W uid) s)"
proof (cases "jointMeshes (handResources s)")
  case None
  then show ?thesis using assms by (simp add: attachHand_def)
next
  case (Some jm)
  show ?thesis
  proof (cases "hand (W uid)")
    case False
    then show ?thesis using assms Some by (simp add: attachHand_def)
  next
    case True
    show ?thesis
    proof (cases "sideOf (handedness (W uid))")
      case None
      then show ?thesis using assms Some True by (simp add: attachHand_def)
    next
      case (Some side)
      let ?h = "\<lparr> xrController = ctrl W uid, handJointMeshes = pick side jm,
                 handMesh = map_option (pick side) (handMeshes (handResources s)),
                 rigMapping = map_option (pick side) (rigMappings (handResources s)),
                 handId = nextHandId s \<rparr>"
      have att: "map_of (attachedHands (attachHand opts (ctrl W uid) s))
                   = (map_of (attachedHands s))(uid \<mapsto> ?h)"
        and trk: "trackingHands (attachHand opts (ctrl W uid) s)
                   = put side (Some ?h) (trackingHands s)"
        using \<open>jointMeshes (handResources s) = Some jm\<close> True Some
        by (simp_all add: attachHand_def Let_def update_conv')
      show ?thesis
        unfolding registriesConsistent_def att trk
      proof (intro conjI allI impI)
        fix u h
        assume "((map_of (attachedHands s))(uid \<mapsto> ?h)) u = Some h"
        then show "xrController h = ctrl W u"
          using assms by (auto simp: registriesConsistent_def split: if_splits)
      next
        fix sd t
        assume p: "pick sd (put side (Some ?h) (trackingHands s)) = Some t"
        show "\<exists>u. xrController t = ctrl W u \<and> sideOf (handedness (W u)) = Some sd
                 \<and> ((map_of (attachedHands s))(uid \<mapsto> ?h)) u \<noteq> None"
        proof (cases "sd = side")
          case True
          with p have "t = ?h" by (simp add: pick_put)
          then show ?thesis using Some True by (intro exI [of _ uid]) simp
        next
          case False
          with p have "pick sd (trackingHands s) = Some t" by (simp add: pick_put)
          with assms obtain u where "xrController t = ctrl W u"
            "sideOf (handedness (W u)) = Some sd" "map_of (attachedHands s) u \<noteq> None"
            unfolding registriesConsistent_def by blast
          then show ?thesis by (intro exI [of _ u]) simp
        qed
      qed
    qed
  qed
qed

lemma side_of_handedness:
  "sideOf h = Some side \<Longrightarrow> (if h = Hleft then SLeft else SRight) = side"
  by (cases h) (auto simp: sideOf_def)

lemma consistent_detachHandById:
  assumes "registriesConsistent W s"
  shows "registriesConsistent W (detachHandById cid d s)"
proof (cases "map_of (attachedHands s) cid")
  case None
  then show ?thesis using assms by (simp add: detachHandById_def getHandByControllerId_def)
next
  case (Some h)
  then have hc: "xrController h = ctrl W cid"
    using assms by (simp add: registriesConsistent_def)
  let ?side = "if handedness (W cid) = Hleft then SLeft else SRight"
  have tracked: "\<And>side t. pick side (trackingHands s) = Some t \<Longrightarrow>
        uniqueId (xrController t) = cid \<Longrightarrow> side = ?side"
  proof -
    fix side t
    assume p: "pick side (trackingHands s) = Some t" and u: "uniqueId (xrController t) = cid"
    from assms p obtain uid where "xrController t = ctrl W uid"
      and sd: "sideOf (handedness (W uid)) = Some side"
      unfolding registriesConsistent_def by blast
    with u have "uid = cid" by simp
    with sd show "side = ?side" using side_of_handedness by metis
  qed
  show ?thesis
    unfolding registriesConsistent_def
  proof (intro conjI allI impI)
    fix uid h'
    assume "map_of (attachedHands (detachHandById cid d s)) uid = Some h'"
    then have "map_of (attachedHands s) uid = Some h'"
      using Some hc
      by (auto simp: detachHandById_def getHandByControllerId_def Let_def delete_conv'
          split: option.splits if_splits)
    then show "xrController h' = ctrl W uid"
      using assms by (simp add: registriesConsistent_def)
  next
    fix side t
    assume p': "pick side (trackingHands (detachHandById cid d s)) = Some t"
    have p: "pick side (trackingHands s) = Some t" and ne: "uniqueId (xrController t) \<noteq> cid"
    proof -
      show p: "pick side (trackingHands s) = Some t"
        using p' Some hc
        by (auto simp: detachHandById_def getHandByControllerId_def Let_def pick_put
            split: option.splits if_splits)
      show "uniqueId (xrController t) \<noteq> cid"
      proof
        assume u: "uniqueId (xrController t) = cid"
        with p have "side = ?side" by (rule tracked)
        with p u have "pick side (trackingHands (detachHandById cid d s)) = None"
          using Some hc
          by (simp add: detachHandById_def getHandByControllerId_def Let_def pick_put)
        with p' show False by simp
      qed
    qed
    from assms p obtain uid where c: "xrController t = ctrl W uid"
      and sd: "sideOf (handedness (W uid)) = Some side"
      and at: "map_of (attachedHands s) uid \<noteq> None"
      unfolding registriesConsistent_def by blast
    from c ne have "uid \<noteq> cid" by auto
    with at have "map_of (attachedHands (detachHandById cid d s)) uid \<noteq> None"
      using Some
      by (simp add: detachHandById_def getHandByControllerId_def Let_def delete_conv'
          split: option.splits)
    with c sd show "\<exists>uid. xrController t = ctrl W uid
                 \<and> sideOf (handedness (W uid)) = Some side
                 \<and> map_of (attachedHands (detachHandById cid d s)) uid \<noteq> None"
      by blast
  qed
qed

lemma consistent_resources:
  "registriesConsistent W (s\<lparr> handResources := r \<rparr>) = registriesConsistent W s"
  "registriesConsistent W (s\<lparr> controllerAddedObservers := a \<rparr>) = registriesConsistent W s"
  "registriesConsistent W (s\<lparr> controllerRemovedObservers := b \<rparr>) = registriesConsistent W s"
  by (simp_all add: registriesConsistent_def)

lemma consistent_fold_attach:
  "registriesConsistent W s \<Longrightarrow>
     registriesConsistent W (fold (attachHand opts) (map (ctrl W) uids) s)"
  by (induction uids arbitrary: s) (simp_all add: consistent_attachHand)

lemma consistent_fold_detach:
  "registriesConsistent W s \<Longrightarrow>
     registriesConsistent W (fold (\<lambda>uid t. detachHandById uid d t) keys s)"
  by (induction keys arbitrary: s) (simp_all add: consistent_detachHandById)

lemma consistent_attach:
  "registriesConsistent W s \<Longrightarrow>
     registriesConsistent W (snd (attach ok opts (map (ctrl W) uids) s))"
proof (cases ok)
  case False
  assume "registriesConsistent W s"
  with False show ?thesis by (simp add: attach_def)
next
  case True
  assume "registriesConsistent W s"
  then have "registriesConsistent W (snd (attach True opts (map (ctrl W) uids) s))"
    unfolding attach_unfold
    by (simp add: consistent_resources consistent_fold_attach)
  with True show ?thesis by simp
qed

lemma consistent_detach:
  "registriesConsistent W s \<Longrightarrow> registriesConsistent W (snd (detach ok opts s))"
  by (simp add: detach_def Let_def consistent_resources consistent_fold_detach)

lemma consistent_runHandler:
  "registriesConsistent W s \<Longrightarrow> registriesConsistent W (runHandler opts (ctrl W uid) h s)"
  by (cases h)
     (simp_all add: runHandler_def detachHand_def consistent_attachHand consistent_detachHandById)

lemma consistent_fold_handlers:
  "registriesConsistent W s \<Longrightarrow>
     registriesConsistent W (fold (runHandler opts (ctrl W uid)) hs s)"
  by (induction hs arbitrary: s) (simp_all add: consistent_runHandler)

lemma reachable_consistent: "reachable W s \<Longrightarrow> registriesConsistent W s"
proof (induction rule: reachable.induct)
  case start
  show ?case by (rule consistent_start)
next
  case (feature_attach s ok opts uids)
  then show ?case by (simp add: consistent_attach)
next
  case (feature_detach s ok opts)
  then show ?case by (simp add: consistent_detach)
next
  case (controller_added s opts uid)
  then show ?case by (simp add: onControllerAdded_def consistent_fold_handlers)
next
  case (controller_removed s opts uid)
  then show ?case by (simp add: onControllerRemoved_def consistent_fold_handlers)
qed

text \<open>
  C7. \<open>getHandByHandedness("none")\<close> is always \<open>null\<close>. At every reachable state, a
  hand tracked as left or right belongs to a controller whose \<open>uniqueId\<close> is a key of
  \<open>_attachedHands\<close>; and for a registered id, after \<open>_detachHandById(id)\<close> there is no hand
  under the id, the hand is no longer tracked if it was the tracked hand of its handedness,
  and the observers of \<open>onHandRemovedObservable\<close> were notified just before the hand was
  disposed.
\<close>

theorem hand_registries_stay_consistent:
  "getHandByHandedness Hnone s = None
   \<and> (reachable W s \<longrightarrow>
        (\<forall>side t. pick side (trackingHands s) = Some t \<longrightarrow>
           uniqueId (xrController t) \<in> fst ` set (attachedHands s))
        \<and> (\<forall>h. getHandByControllerId cid s = Some h \<longrightarrow>
             (let s' = detachHandById cid d s;
                  side = (if handedness (inputSource (xrController h)) = Hleft
                          then SLeft else SRight)
              in getHandByControllerId cid s' = None
               \<and> (pick side (trackingHands s) = Some h \<longrightarrow> pick side (trackingHands s') = None)
               \<and> handEvents s' = handEvents s @ [HandRemoved h, HandDisposed h d])))"
proof (intro conjI impI allI)
  show "getHandByHandedness Hnone s = None" by (simp add: getHandByHandedness_def)
next
  fix side t
  assume r: "reachable W s" and p: "pick side (trackingHands s) = Some t"
  from reachable_consistent [OF r] p obtain uid where "xrController t = ctrl W uid"
    and "map_of (attachedHands s) uid \<noteq> None"
    unfolding registriesConsistent_def by blast
  then have "uniqueId (xrController t) \<in> dom (map_of (attachedHands s))" by auto
  then show "uniqueId (xrController t) \<in> fst ` set (attachedHands s)"
    by (simp add: dom_map_of_conv_image_fst)
next
  fix h
  assume r: "reachable W s" and g: "getHandByControllerId cid s = Some h"
  from reachable_consistent [OF r] g have hc: "xrController h = ctrl W cid"
    by (simp add: registriesConsistent_def getHandByControllerId_def)
  show "let s' = detachHandById cid d s;
            side = (if handedness (inputSource (xrController h)) = Hleft then SLeft else SRight)
        in getHandByControllerId cid s' = None
         \<and> (pick side (trackingHands s) = Some h \<longrightarrow> pick side (trackingHands s') = None)
         \<and> handEvents s' = handEvents s @ [HandRemoved h, HandDisposed h d]"
    unfolding Let_def
    using g hc
    by (auto simp: detachHandById_def getHandByControllerId_def Let_def delete_conv' pick_put
        split: option.splits)
qed

lemma oneHandState_values:
  "getHandByControllerId ''hand-0'' oneHandState = Some firstHand"
  "pick SLeft (trackingHands oneHandState) = Some firstHand"
  "handEvents oneHandState = [HandAdded firstHand]"
  by (simp_all add: oneHandState_def onControllerAdded_def attach_def Let_def newHandTracking_def
        runHandler_def attachHand_def allLeftHands_def sideOf_def plainOptions_def pick_def
        put_def getHandByControllerId_def firstHand_def ctrl_def)

theorem hand_registries_stay_consistent_witness:
  "reachable allLeftHands oneHandState
   \<and> getHandByHandedness Hnone oneHandState = None
   \<and> uniqueId (xrController firstHand) \<in> fst ` set (attachedHands oneHandState)
   \<and> getHandByControllerId ''hand-0'' (detachHandById ''hand-0'' False oneHandState) = None
   \<and> pick SLeft (trackingHands (detachHandById ''hand-0'' False oneHandState)) = None
   \<and> handEvents (detachHandById ''hand-0'' False oneHandState)
       = [HandAdded firstHand, HandRemoved firstHand, HandDisposed firstHand False]"
proof -
  have r: "reachable allLeftHands oneHandState"
    unfolding oneHandState_def by (intro reachable.intros)
  note t = hand_registries_stay_consistent [of oneHandState allLeftHands "''hand-0''" False]
  have n: "getHandByHandedness Hnone oneHandState = None"
    using t by blast
  from t r have inv: "\<forall>side t. pick side (trackingHands oneHandState) = Some t \<longrightarrow>
           uniqueId (xrController t) \<in> fst ` set (attachedHands oneHandState)"
    and det: "\<forall>h. getHandByControllerId ''hand-0'' oneHandState = Some h \<longrightarrow>
             (let s' = detachHandById ''hand-0'' False oneHandState;
                  side = (if handedness (inputSource (xrController h)) = Hleft
                          then SLeft else SRight)
              in getHandByControllerId ''hand-0'' s' = None
               \<and> (pick side (trackingHands oneHandState) = Some h
                    \<longrightarrow> pick side (trackingHands s') = None)
               \<and> handEvents s' = handEvents oneHandState @ [HandRemoved h, HandDisposed h False])"
    by blast+
  have k: "uniqueId (xrController firstHand) \<in> fst ` set (attachedHands oneHandState)"
    using inv oneHandState_values(2) by blast
  have sd: "(if handedness (inputSource (xrController firstHand)) = Hleft then SLeft else SRight)
              = SLeft"
    by (simp add: firstHand_def ctrl_def allLeftHands_def)
  from det [rule_format, OF oneHandState_values(1)]
  have "getHandByControllerId ''hand-0'' (detachHandById ''hand-0'' False oneHandState) = None"
    and "pick SLeft (trackingHands (detachHandById ''hand-0'' False oneHandState)) = None"
    and "handEvents (detachHandById ''hand-0'' False oneHandState)
           = [HandAdded firstHand, HandRemoved firstHand, HandDisposed firstHand False]"
    unfolding Let_def sd using oneHandState_values by simp_all
  with r n k show ?thesis by blast
qed

end
